theory Spec2Isabelle
  imports Main "HOL-Library.Multiset"
begin

section \<open>Python values, exceptions and string operations\<close>

text \<open>
  The trait mapping script (\<^verbatim>\<open>bin/trait_mapping/trait_mapping.py\<close>) is embedded function by
  function. A Python exception is a value of \<open>py_error\<close>; a function that can raise returns
  \<open>py_error + 'a\<close>, with \<open>Inl\<close> the exception. Python's \<^verbatim>\<open>None\<close> is \<open>None\<close> of an
  option type wherever the source lets a variable hold it.

  Strings are byte strings (\<open>char list\<close>): \<^verbatim>\<open>str.lower\<close> and \<^verbatim>\<open>str.upper\<close> are modelled on
  the ASCII letters and the pattern \<^verbatim>\<open>\d\<close> on the ASCII digits.
\<close>

datatype py_error =
  KeyError | TypeError | ValueError | IndexError | JSONDecodeError | RequestException

definition lower_char :: "char \<Rightarrow> char" where
  "lower_char c =
     (case map_of (zip ''ABCDEFGHIJKLMNOPQRSTUVWXYZ'' ''abcdefghijklmnopqrstuvwxyz'') c of
        Some l \<Rightarrow> l
      | None \<Rightarrow> c)"

definition upper_char :: "char \<Rightarrow> char" where
  "upper_char c =
     (case map_of (zip ''abcdefghijklmnopqrstuvwxyz'' ''ABCDEFGHIJKLMNOPQRSTUVWXYZ'') c of
        Some u \<Rightarrow> u
      | None \<Rightarrow> c)"

definition lower :: "string \<Rightarrow> string" where
  "lower s = map lower_char s"

definition upper :: "string \<Rightarrow> string" where
  "upper s = map upper_char s"

text \<open>\<^verbatim>\<open>s.split(sep)\<close> for a one-character separator: the pieces between the separators,
  empty pieces included, never an empty list.\<close>

fun split_acc :: "char \<Rightarrow> string \<Rightarrow> string \<Rightarrow> string list" where
  "split_acc sep cur [] = [rev cur]"
| "split_acc sep cur (c # cs) =
     (if c = sep then rev cur # split_acc sep [] cs else split_acc sep (c # cur) cs)"

definition split_str :: "char \<Rightarrow> string \<Rightarrow> string list" where
  "split_str sep s = split_acc sep [] s"

text \<open>\<^verbatim>\<open>s.rstrip(c)\<close>, \<^verbatim>\<open>x in s\<close> on strings, and \<^verbatim>\<open>sep.join(xs)\<close>.\<close>

definition rstrip_str :: "char \<Rightarrow> string \<Rightarrow> string" where
  "rstrip_str c s = rev (dropWhile (\<lambda>x. x = c) (rev s))"

fun contains :: "string \<Rightarrow> string \<Rightarrow> bool" where
  "contains x [] = (x = [])"
| "contains x (c # cs) = (take (length x) (c # cs) = x \<or> contains x cs)"

fun join_str :: "string \<Rightarrow> string list \<Rightarrow> string" where
  "join_str sep [] = []"
| "join_str sep [x] = x"
| "join_str sep (x # y # ys) = x @ sep @ join_str sep (y # ys)"

text \<open>\<^verbatim>\<open>template.format(arg)\<close> for a template with one replacement field \<^verbatim>\<open>{}\<close>.\<close>

fun format1 :: "string \<Rightarrow> string \<Rightarrow> string" where
  "format1 [] arg = []"
| "format1 (c # cs) arg =
     (if c = CHR ''{'' \<and> take 1 cs = ''}'' then arg @ drop 1 cs else c # format1 cs arg)"

text \<open>\<^verbatim>\<open>str(n)\<close> for an integer.\<close>

fun digits :: "nat \<Rightarrow> string" where
  "digits n =
     (if n < 10 then [''0123456789'' ! n]
      else digits (n div 10) @ [''0123456789'' ! (n mod 10)])"

definition str_int :: "int \<Rightarrow> string" where
  "str_int i = (if i < 0 then ''-'' @ digits (nat (- i)) else digits (nat i))"

text \<open>\<^verbatim>\<open>xs[i]\<close> on a list: a negative index counts from the end, an index out of range
  raises \<^verbatim>\<open>IndexError\<close>.\<close>

definition py_getitem :: "'a list \<Rightarrow> int \<Rightarrow> py_error + 'a" where
  "py_getitem xs i =
     (if i < 0 then
        (if nat (- i) \<le> length xs then Inr (xs ! (length xs - nat (- i)))
         else Inl IndexError)
      else
        (if nat i < length xs then Inr (xs ! nat i) else Inl IndexError))"

text \<open>
  A Python \<^verbatim>\<open>set\<close> is modelled by the list of its elements without duplicates, in the
  order of their first insertion. Python leaves the iteration order of a set unspecified,
  so the theorems below speak of such a list only through \<open>set\<close>, \<open>distinct\<close> and
  \<open>length\<close>.
\<close>

definition set_add :: "'a \<Rightarrow> 'a list \<Rightarrow> 'a list" where
  "set_add x s = (if x \<in> set s then s else s @ [x])"

definition set_update :: "'a list \<Rightarrow> 'a list \<Rightarrow> 'a list" where
  "set_update xs s = fold set_add xs s"

text \<open>
  \<^verbatim>\<open>list.sort\<close> is a stable sort that compares with \<^verbatim>\<open>__lt__\<close> only; on a comparison that
  orders by a key the result of any stable sort is the stable insertion sort's.
  With \<^verbatim>\<open>reverse=True\<close> CPython reverses the list, sorts it, and reverses the result, so
  that equal elements keep their original order.
\<close>

fun py_insort :: "('a \<Rightarrow> 'a \<Rightarrow> bool) \<Rightarrow> 'a \<Rightarrow> 'a list \<Rightarrow> 'a list" where
  "py_insort lt x [] = [x]"
| "py_insort lt x (y # ys) = (if lt y x then y # py_insort lt x ys else x # y # ys)"

definition py_sort :: "('a \<Rightarrow> 'a \<Rightarrow> bool) \<Rightarrow> 'a list \<Rightarrow> 'a list" where
  "py_sort lt xs = foldr (py_insort lt) xs []"

definition py_sort_reverse :: "('a \<Rightarrow> 'a \<Rightarrow> bool) \<Rightarrow> 'a list \<Rightarrow> 'a list" where
  "py_sort_reverse lt xs = rev (py_sort lt (rev xs))"

section \<open>Classes\<close>

subsection \<open>OntologyUri\<close>

record ontology_uri =
  ou_id :: string
  ou_db :: string
  ou_uri :: string

definition db_to_uri_dict :: "(string \<times> string) list" where
  "db_to_uri_dict =
     [(''orphanet'', ''http://www.orpha.net/ORDO/Orphanet_{}''),
      (''omim'', ''http://identifiers.org/omim/{}''),
      (''efo'', ''http://www.ebi.ac.uk/efo/EFO_{}''),
      (''mesh'', ''http://identifiers.org/mesh/{}''),
      (''medgen'', ''http://identifiers.org/medgen/{}''),
      (''human phenotype ontology'', ''http://purl.obolibrary.org/obo/HP_{}''),
      (''hp'', ''http://purl.obolibrary.org/obo/HP_{}'')]"

text \<open>\<^verbatim>\<open>OntologyUri.__init__\<close>: the dictionary lookup raises \<^verbatim>\<open>KeyError\<close> for a database
  that is not a key.\<close>

definition OntologyUri :: "string \<Rightarrow> string \<Rightarrow> py_error + ontology_uri" where
  "OntologyUri ident db =
     (if lower db = ''human phenotype ontology'' then
        (case map_of db_to_uri_dict (lower db) of
           None \<Rightarrow> Inl KeyError
         | Some template \<Rightarrow>
             Inr \<lparr>ou_id = ident, ou_db = db, ou_uri = format1 template (drop 3 ident)\<rparr>)
      else
        (case map_of db_to_uri_dict (lower db) of
           None \<Rightarrow> Inl KeyError
         | Some template \<Rightarrow>
             Inr \<lparr>ou_id = ident, ou_db = db, ou_uri = format1 template ident\<rparr>))"

definition OntologyUri_str :: "ontology_uri \<Rightarrow> string" where
  "OntologyUri_str self = ou_uri self"

subsection \<open>OxOMapping and OxOResult\<close>

record oxo_mapping =
  om_label :: string
  om_db :: string
  om_id :: string
  om_uri :: ontology_uri
  om_distance :: int
  om_query_id :: string
  om_in_efo :: bool
  om_is_current :: bool
  om_ontology_label :: string

text \<open>\<^verbatim>\<open>self.db, self.id_ = curie.split(":")\<close> raises \<^verbatim>\<open>ValueError\<close> unless the curie has
  exactly two parts; the exception of \<open>OntologyUri\<close> is not caught.\<close>

definition OxOMapping :: "string \<Rightarrow> string \<Rightarrow> int \<Rightarrow> string \<Rightarrow> py_error + oxo_mapping" where
  "OxOMapping label curie distance query_id =
     (case split_str (CHR '':'') curie of
        [db, ident] \<Rightarrow>
          (case OntologyUri ident db of
             Inl e \<Rightarrow> Inl e
           | Inr uri \<Rightarrow>
               Inr \<lparr>om_label = label, om_db = db, om_id = ident, om_uri = uri,
                    om_distance = distance, om_query_id = query_id, om_in_efo = False,
                    om_is_current = False, om_ontology_label = []\<rparr>)
      | _ \<Rightarrow> Inl ValueError)"

record oxo_result =
  or_query_id :: string
  or_label :: string
  or_db :: string
  or_id :: string
  or_uri :: ontology_uri
  oxo_mapping_list :: "oxo_mapping list"

definition OxOResult :: "string \<Rightarrow> string \<Rightarrow> string \<Rightarrow> py_error + oxo_result" where
  "OxOResult query_id label curie =
     (case split_str (CHR '':'') curie of
        [db, ident] \<Rightarrow>
          (case OntologyUri ident db of
             Inl e \<Rightarrow> Inl e
           | Inr uri \<Rightarrow>
               Inr \<lparr>or_query_id = query_id, or_label = label, or_db = db, or_id = ident,
                    or_uri = uri, oxo_mapping_list = []\<rparr>)
      | _ \<Rightarrow> Inl ValueError)"

subsection \<open>ZoomaConfidence, ZoomaEntry, ZoomaMapping\<close>

datatype ZoomaConfidence = LOW | MEDIUM | GOOD | HIGH

fun confidence_value :: "ZoomaConfidence \<Rightarrow> nat" where
  "confidence_value LOW = 1"
| "confidence_value MEDIUM = 2"
| "confidence_value GOOD = 3"
| "confidence_value HIGH = 4"

definition ZoomaConfidence_eq :: "ZoomaConfidence \<Rightarrow> ZoomaConfidence \<Rightarrow> bool" where
  "ZoomaConfidence_eq self other = (confidence_value self = confidence_value other)"

definition ZoomaConfidence_lt :: "ZoomaConfidence \<Rightarrow> ZoomaConfidence \<Rightarrow> bool" where
  "ZoomaConfidence_lt self other = (confidence_value self < confidence_value other)"

fun ZoomaConfidence_str :: "ZoomaConfidence \<Rightarrow> string" where
  "ZoomaConfidence_str LOW = ''LOW''"
| "ZoomaConfidence_str MEDIUM = ''MEDIUM''"
| "ZoomaConfidence_str GOOD = ''GOOD''"
| "ZoomaConfidence_str HIGH = ''HIGH''"

text \<open>\<^verbatim>\<open>ZoomaConfidence[name]\<close>: the member of that name, \<^verbatim>\<open>KeyError\<close> when there is none.\<close>

definition ZoomaConfidence_getitem :: "string \<Rightarrow> py_error + ZoomaConfidence" where
  "ZoomaConfidence_getitem n =
     (if n = ''LOW'' then Inr LOW
      else if n = ''MEDIUM'' then Inr MEDIUM
      else if n = ''GOOD'' then Inr GOOD
      else if n = ''HIGH'' then Inr HIGH
      else Inl KeyError)"

record zooma_entry =
  ze_uri :: string
  ze_confidence :: ZoomaConfidence
  ze_source :: string
  ze_ontology_label :: string
  ze_in_efo :: bool
  ze_is_current :: bool

definition ZoomaEntry :: "string \<Rightarrow> string \<Rightarrow> string \<Rightarrow> py_error + zooma_entry" where
  "ZoomaEntry uri confidence source =
     (case ZoomaConfidence_getitem (upper confidence) of
        Inl e \<Rightarrow> Inl e
      | Inr c \<Rightarrow>
          Inr \<lparr>ze_uri = uri, ze_confidence = c, ze_source = source, ze_ontology_label = [],
               ze_in_efo = False, ze_is_current = False\<rparr>)"

text \<open>\<^verbatim>\<open>ZoomaEntry.__lt__\<close> and \<^verbatim>\<open>OxOMapping.__lt__\<close> compare two tuples: Python compares the
  first components that are not equal, and equal tuples are not less.\<close>

definition ZoomaEntry_lt :: "zooma_entry \<Rightarrow> zooma_entry \<Rightarrow> bool" where
  "ZoomaEntry_lt self other =
     (if \<not> ZoomaConfidence_eq (ze_confidence self) (ze_confidence other)
        then ZoomaConfidence_lt (ze_confidence self) (ze_confidence other)
      else if ze_in_efo self \<noteq> ze_in_efo other then ze_in_efo self < ze_in_efo other
      else if ze_is_current self \<noteq> ze_is_current other
        then ze_is_current self < ze_is_current other
      else False)"

definition OxOMapping_lt :: "oxo_mapping \<Rightarrow> oxo_mapping \<Rightarrow> bool" where
  "OxOMapping_lt self other =
     (if om_distance other \<noteq> om_distance self then om_distance other < om_distance self
      else if om_in_efo self \<noteq> om_in_efo other then om_in_efo self < om_in_efo other
      else if om_is_current self \<noteq> om_is_current other
        then om_is_current self < om_is_current other
      else False)"

record zooma_mapping =
  zooma_label :: string
  zm_confidence :: string
  zm_source :: string
  zooma_entry_list :: "zooma_entry list"

text \<open>The loop of \<^verbatim>\<open>ZoomaMapping.__init__\<close> over \<^verbatim>\<open>uri_list\<close>.\<close>

fun zooma_entries_of :: "string list \<Rightarrow> string \<Rightarrow> string \<Rightarrow> py_error + zooma_entry list" where
  "zooma_entries_of [] confidence source = Inr []"
| "zooma_entries_of (uri # uri_list) confidence source =
     (case ZoomaEntry uri confidence source of
        Inl e \<Rightarrow> Inl e
      | Inr entry \<Rightarrow>
          (case zooma_entries_of uri_list confidence source of
             Inl e \<Rightarrow> Inl e
           | Inr entries \<Rightarrow> Inr (entry # entries)))"

definition ZoomaMapping ::
  "string list \<Rightarrow> string \<Rightarrow> string \<Rightarrow> string \<Rightarrow> py_error + zooma_mapping" where
  "ZoomaMapping uri_list label confidence source =
     (case zooma_entries_of uri_list confidence source of
        Inl e \<Rightarrow> Inl e
      | Inr entries \<Rightarrow>
          Inr \<lparr>zooma_label = label, zm_confidence = confidence, zm_source = source,
               zooma_entry_list = entries\<rparr>)"

subsection \<open>The equality test of OxOMapping\<close>

text \<open>
  \<^verbatim>\<open>OxOMapping.__eq__\<close> takes any object as \<^verbatim>\<open>other\<close> and returns either \<^verbatim>\<open>False\<close> or a
  tuple of booleans. \<open>py_object\<close> lists the kinds of object of the script; \<open>truthy\<close> is
  the value of a result in a boolean context.
\<close>

datatype py_object =
  OxOMappingObj oxo_mapping
| ZoomaEntryObj zooma_entry
| OxOResultObj oxo_result
| StrObj string
| NoneObj

datatype eq_result = BoolResult bool | TupleResult "bool list"

fun truthy :: "eq_result \<Rightarrow> bool" where
  "truthy (BoolResult b) = b"
| "truthy (TupleResult bs) = (length bs > 0)"

fun OxOMapping_eq :: "oxo_mapping \<Rightarrow> py_object \<Rightarrow> eq_result" where
  "OxOMapping_eq self (OxOMappingObj other) =
     TupleResult
       [om_label self = om_label other, om_db self = om_db other, om_id self = om_id other,
        om_distance self = om_distance other, om_in_efo self = om_in_efo other,
        om_is_current self = om_is_current other,
        om_ontology_label self = om_ontology_label other]"
| "OxOMapping_eq self _ = BoolResult False"

subsection \<open>OntologyEntry and Trait\<close>

record ontology_entry =
  oe_uri :: string
  oe_label :: string

definition OntologyEntry :: "string \<Rightarrow> string \<Rightarrow> ontology_entry" where
  "OntologyEntry uri label = \<lparr>oe_uri = uri, oe_label = label\<rparr>"

text \<open>
  \<^verbatim>\<open>process_trait\<close> assigns the results of the two clients to \<^verbatim>\<open>zooma_mapping_list\<close> and
  \<^verbatim>\<open>oxo_xref_list\<close>, and both clients return \<^verbatim>\<open>None\<close> on failure: the two fields are
  options. \<^verbatim>\<open>finished_mapping_set\<close> is a set of \<^verbatim>\<open>OntologyEntry\<close>, whose \<^verbatim>\<open>__eq__\<close> and
  \<^verbatim>\<open>__hash__\<close> are by value.
\<close>

record trait =
  t_name :: string
  frequency :: nat
  zooma_mapping_list :: "zooma_mapping list option"
  oxo_xref_list :: "oxo_result list option"
  finished_mapping_set :: "ontology_entry list"

definition Trait :: "string \<Rightarrow> nat \<Rightarrow> trait" where
  "Trait n freq =
     \<lparr>t_name = n, frequency = freq, zooma_mapping_list = Some [], oxo_xref_list = Some [],
      finished_mapping_set = []\<rparr>"

definition is_finished :: "trait \<Rightarrow> bool" where
  "is_finished self = (length (finished_mapping_set self) > 0)"

text \<open>\<^verbatim>\<open>Trait.process_zooma_mappings\<close>: the inner loop, the outer loop, and the method; iterating
  \<^verbatim>\<open>None\<close> raises \<^verbatim>\<open>TypeError\<close>.\<close>

fun zooma_entries_finished :: "zooma_entry list \<Rightarrow> ontology_entry list \<Rightarrow> ontology_entry list" where
  "zooma_entries_finished [] fs = fs"
| "zooma_entries_finished (entry # entries) fs =
     zooma_entries_finished entries
       (if ze_in_efo entry \<and> ze_is_current entry
        then set_add (OntologyEntry (ze_uri entry) (ze_ontology_label entry)) fs
        else fs)"

fun zooma_mappings_finished ::
  "zooma_mapping list \<Rightarrow> ontology_entry list \<Rightarrow> ontology_entry list" where
  "zooma_mappings_finished [] fs = fs"
| "zooma_mappings_finished (mapping # mappings) fs =
     zooma_mappings_finished mappings
       (if lower (zm_confidence mapping) \<noteq> ''high'' then fs
        else zooma_entries_finished (zooma_entry_list mapping) fs)"

definition process_zooma_mappings :: "trait \<Rightarrow> py_error + trait" where
  "process_zooma_mappings self =
     (case zooma_mapping_list self of
        None \<Rightarrow> Inl TypeError
      | Some mappings \<Rightarrow>
          Inr (self\<lparr>finished_mapping_set :=
                 zooma_mappings_finished mappings (finished_mapping_set self)\<rparr>))"

text \<open>\<^verbatim>\<open>Trait.process_oxo_mappings\<close>, in the same way.\<close>

fun oxo_mappings_finished :: "oxo_mapping list \<Rightarrow> ontology_entry list \<Rightarrow> ontology_entry list" where
  "oxo_mappings_finished [] fs = fs"
| "oxo_mappings_finished (mapping # mappings) fs =
     oxo_mappings_finished mappings
       (if om_in_efo mapping \<and> om_is_current mapping \<and> om_distance mapping = 1
        then set_add (OntologyEntry (OntologyUri_str (om_uri mapping)) (om_ontology_label mapping)) fs
        else fs)"

fun oxo_results_finished :: "oxo_result list \<Rightarrow> ontology_entry list \<Rightarrow> ontology_entry list" where
  "oxo_results_finished [] fs = fs"
| "oxo_results_finished (result # results) fs =
     oxo_results_finished results (oxo_mappings_finished (oxo_mapping_list result) fs)"

definition process_oxo_mappings :: "trait \<Rightarrow> py_error + trait" where
  "process_oxo_mappings self =
     (case oxo_xref_list self of
        None \<Rightarrow> Inl TypeError
      | Some results \<Rightarrow>
          Inr (self\<lparr>finished_mapping_set :=
                 oxo_results_finished results (finished_mapping_set self)\<rparr>))"

section \<open>Output\<close>

text \<open>
  A \<^verbatim>\<open>csv.writer\<close> is modelled by the list of rows written to it so far; a row is a list
  of cells, a string or (the frequency) an integer.
\<close>

datatype cell = Str string | Num nat

type_synonym csv_writer = "cell list list"

definition output_trait_mapping :: "trait \<Rightarrow> csv_writer \<Rightarrow> csv_writer" where
  "output_trait_mapping trait mapping_writer =
     mapping_writer @
       map (\<lambda>ontology_entry.
              [Str (t_name trait), Str (oe_uri ontology_entry), Str (oe_label ontology_entry)])
         (finished_mapping_set trait)"

definition zooma_candidates :: "zooma_mapping list \<Rightarrow> zooma_entry list" where
  "zooma_candidates mappings =
     concat (map (\<lambda>zooma_mapping.
                    filter (\<lambda>zooma_entry. ze_in_efo zooma_entry \<and> ze_is_current zooma_entry)
                      (zooma_entry_list zooma_mapping))
               mappings)"

definition get_zooma_mappings_for_curation :: "trait \<Rightarrow> py_error + zooma_entry list" where
  "get_zooma_mappings_for_curation trait =
     (case zooma_mapping_list trait of
        None \<Rightarrow> Inl TypeError
      | Some mappings \<Rightarrow> Inr (py_sort_reverse ZoomaEntry_lt (zooma_candidates mappings)))"

definition oxo_candidates :: "oxo_result list \<Rightarrow> oxo_mapping list" where
  "oxo_candidates results =
     concat (map (\<lambda>oxo_result.
                    filter (\<lambda>oxo_mapping. om_in_efo oxo_mapping \<and> om_is_current oxo_mapping)
                      (oxo_mapping_list oxo_result))
               results)"

definition get_oxo_mappings_for_curation :: "trait \<Rightarrow> py_error + oxo_mapping list" where
  "get_oxo_mappings_for_curation trait =
     (case oxo_xref_list trait of
        None \<Rightarrow> Inl TypeError
      | Some results \<Rightarrow> Inr (py_sort_reverse OxOMapping_lt (oxo_candidates results)))"

definition zooma_cell :: "zooma_entry \<Rightarrow> cell" where
  "zooma_cell zooma_entry =
     Str (join_str ''|''
            [ze_uri zooma_entry, ze_ontology_label zooma_entry,
             ZoomaConfidence_str (ze_confidence zooma_entry), ze_source zooma_entry])"

definition oxo_cell :: "oxo_mapping \<Rightarrow> cell" where
  "oxo_cell oxo_mapping =
     Str (join_str ''|''
            [OntologyUri_str (om_uri oxo_mapping), om_ontology_label oxo_mapping,
             str_int (om_distance oxo_mapping), om_query_id oxo_mapping])"

definition output_for_curation :: "trait \<Rightarrow> csv_writer \<Rightarrow> py_error + csv_writer" where
  "output_for_curation trait curation_writer =
     (case get_zooma_mappings_for_curation trait of
        Inl e \<Rightarrow> Inl e
      | Inr zooma_entries \<Rightarrow>
          (case get_oxo_mappings_for_curation trait of
             Inl e \<Rightarrow> Inl e
           | Inr oxo_mappings \<Rightarrow>
               Inr (curation_writer @
                      [[Str (t_name trait), Num (frequency trait)]
                         @ map zooma_cell zooma_entries
                         @ map oxo_cell oxo_mappings])))"

text \<open>\<^verbatim>\<open>output_trait\<close> takes and returns the pair of the mapping writer and the curation
  writer.\<close>

definition output_trait ::
  "trait \<Rightarrow> csv_writer \<times> csv_writer \<Rightarrow> py_error + csv_writer \<times> csv_writer" where
  "output_trait trait writers =
     (if is_finished trait then Inr (output_trait_mapping trait (fst writers), snd writers)
      else
        (case output_for_curation trait (snd writers) of
           Inl e \<Rightarrow> Inl e
         | Inr curation_writer \<Rightarrow> Inr (fst writers, curation_writer)))"

section \<open>Identifiers for the cross-reference service\<close>

definition URI_DB_TO_DB_DICT :: "(string \<times> string) list" where
  "URI_DB_TO_DB_DICT =
     [(''ordo'', ''Orphanet''), (''omim'', ''OMIM''), (''efo'', ''EFO''), (''mesh'', ''MeSH''),
      (''obo'', ''HP'')]"

text \<open>\<^verbatim>\<open>NON_NUMERIC_RE.sub("", s)\<close> deletes every run of characters that are not digits.\<close>

definition NON_NUMERIC_RE_sub :: "string \<Rightarrow> string" where
  "NON_NUMERIC_RE_sub s = filter (\<lambda>c. c \<in> set ''0123456789'') s"

definition uri_to_oxo_format :: "string \<Rightarrow> py_error + string option" where
  "uri_to_oxo_format uri =
     (if \<not> list_ex (\<lambda>x. contains x (lower uri)) (map fst URI_DB_TO_DB_DICT) then Inr None
      else
        (let uri_list = split_str (CHR ''/'') (rstrip_str (CHR ''/'') uri) in
         case py_getitem uri_list (- 1) of
           Inl e \<Rightarrow> Inl e
         | Inr last_segment \<Rightarrow>
             (case py_getitem uri_list (- 2) of
                Inl e \<Rightarrow> Inl e
              | Inr db_segment \<Rightarrow>
                  (case map_of URI_DB_TO_DB_DICT (lower db_segment) of
                     None \<Rightarrow> Inl KeyError
                   | Some db \<Rightarrow> Inr (Some (db @ '':'' @ NON_NUMERIC_RE_sub last_segment))))))"

fun uris_to_oxo_format :: "string list \<Rightarrow> py_error + string list" where
  "uris_to_oxo_format [] = Inr []"
| "uris_to_oxo_format (uri # uri_set) =
     (case uri_to_oxo_format uri of
        Inl e \<Rightarrow> Inl e
      | Inr oxo_id \<Rightarrow>
          (case uris_to_oxo_format uri_set of
             Inl e \<Rightarrow> Inl e
           | Inr oxo_id_list \<Rightarrow>
               Inr (case oxo_id of None \<Rightarrow> oxo_id_list | Some i \<Rightarrow> i # oxo_id_list)))"

fun get_uris_for_oxo_acc :: "zooma_mapping list \<Rightarrow> string list \<Rightarrow> string list" where
  "get_uris_for_oxo_acc [] uri_set = uri_set"
| "get_uris_for_oxo_acc (mapping # mappings) uri_set =
     get_uris_for_oxo_acc mappings
       (if lower (zm_confidence mapping) \<noteq> ''high'' then uri_set
        else set_update (map ze_uri (zooma_entry_list mapping)) uri_set)"

definition get_uris_for_oxo :: "zooma_mapping list \<Rightarrow> string list" where
  "get_uris_for_oxo mappings = get_uris_for_oxo_acc mappings []"

section \<open>The primary annotation client\<close>

text \<open>
  A decoded response of the primary source is a list of result objects. Each of the keys
  that \<^verbatim>\<open>get_mappings_for_trait\<close> subscripts may be missing from its object (\<open>None\<close>), and
  a key that is present has the type of the service's contract: the semantic tags are a
  list of strings, the other leaves are strings.
\<close>

record source_json =
  sj_name :: "string option"

record provenance_json =
  pj_source :: "source_json option"

record derived_from_json =
  dj_provenance :: "provenance_json option"

record annotated_property_json =
  aj_propertyValue :: "string option"

record zooma_result_json =
  semanticTags :: "string list option"
  annotatedProperty :: "annotated_property_json option"
  confidence :: "string option"
  derivedFrom :: "derived_from_json option"

text \<open>\<^verbatim>\<open>d[key]\<close> on a dictionary: \<^verbatim>\<open>KeyError\<close> when the key is missing.\<close>

definition subscript :: "'a option \<Rightarrow> py_error + 'a" where
  "subscript field = (case field of None \<Rightarrow> Inl KeyError | Some v \<Rightarrow> Inr v)"

definition result_source_name :: "zooma_result_json \<Rightarrow> py_error + string" where
  "result_source_name result =
     (case subscript (derivedFrom result) of
        Inl e \<Rightarrow> Inl e
      | Inr d \<Rightarrow>
          (case subscript (dj_provenance d) of
             Inl e \<Rightarrow> Inl e
           | Inr p \<Rightarrow>
               (case subscript (pj_source p) of
                  Inl e \<Rightarrow> Inl e
                | Inr s \<Rightarrow> subscript (sj_name s))))"

definition result_mapping :: "zooma_result_json \<Rightarrow> py_error + zooma_mapping" where
  "result_mapping result =
     (case subscript (semanticTags result) of
        Inl e \<Rightarrow> Inl e
      | Inr uris \<Rightarrow>
          (case subscript (annotatedProperty result) of
             Inl e \<Rightarrow> Inl e
           | Inr ap \<Rightarrow>
               (case subscript (aj_propertyValue ap) of
                  Inl e \<Rightarrow> Inl e
                | Inr label \<Rightarrow>
                    (case subscript (confidence result) of
                       Inl e \<Rightarrow> Inl e
                     | Inr conf \<Rightarrow>
                         (case result_source_name result of
                            Inl e \<Rightarrow> Inl e
                          | Inr source_name \<Rightarrow> ZoomaMapping uris label conf source_name)))))"

fun get_mappings_for_trait :: "zooma_result_json list \<Rightarrow> py_error + zooma_mapping list" where
  "get_mappings_for_trait [] = Inr []"
| "get_mappings_for_trait (result # zooma_response) =
     (case result_mapping result of
        Inl e \<Rightarrow> Inl e
      | Inr mapping \<Rightarrow>
          (case get_mappings_for_trait zooma_response of
             Inl e \<Rightarrow> Inl e
           | Inr mappings \<Rightarrow> Inr (mapping # mappings)))"

text \<open>
  The remote services are parameters of the model. \<open>requests_get_json url\<close> is
  \<^verbatim>\<open>requests.get(url).json()\<close> on the primary source: the decoded response (a list of
  result objects; a body that decodes to \<^verbatim>\<open>null\<close> is outside the model), or the exception
  raised. The three term-metadata lookups and \<^verbatim>\<open>get_oxo_results\<close> are taken
  whole: the first three are memoised functions of the URI, the last returns the enriched
  results, \<^verbatim>\<open>None\<close> when the service gave no answer, or raises.
\<close>

record env =
  requests_get_json :: "string \<Rightarrow> py_error + zooma_result_json list"
  get_ontology_label_from_ols :: "string \<Rightarrow> string option"
  is_current_and_in_efo :: "string \<Rightarrow> bool"
  is_in_efo :: "string \<Rightarrow> bool"
  get_oxo_results :: "string list \<Rightarrow> string list \<Rightarrow> int \<Rightarrow> py_error + oxo_result list option"

text \<open>\<^verbatim>\<open>zooma_query_helper\<close> catches \<^verbatim>\<open>JSONDecodeError\<close> and nothing else.\<close>

definition zooma_query_helper :: "env \<Rightarrow> string \<Rightarrow> py_error + zooma_result_json list option" where
  "zooma_query_helper e url =
     (case requests_get_json e url of
        Inl JSONDecodeError \<Rightarrow> Inr None
      | Inl err \<Rightarrow> Inl err
      | Inr json_response_1 \<Rightarrow> Inr (Some json_response_1))"

fun request_retry_helper ::
  "(string \<Rightarrow> py_error + 'a option) \<Rightarrow> nat \<Rightarrow> string \<Rightarrow> py_error + 'a option" where
  "request_retry_helper func 0 url = Inr None"
| "request_retry_helper func (Suc retry_count) url =
     (case func url of
        Inl err \<Rightarrow> Inl err
      | Inr (Some return_value) \<Rightarrow> Inr (Some return_value)
      | Inr None \<Rightarrow> request_retry_helper func retry_count url)"

record filters =
  f_required :: string
  f_ontologies :: string
  f_preferred :: string

definition build_zooma_query :: "string \<Rightarrow> filters \<Rightarrow> string \<Rightarrow> string" where
  "build_zooma_query trait_name fs zooma_host =
     zooma_host @ ''/spot/zooma/v2/api/services/annotate?propertyValue='' @ trait_name
       @ ''&filter=''
       @ join_str '',''
           [''required:['' @ f_required fs @ '']'',
            ''ontologies:['' @ f_ontologies fs @ '']'',
            ''preferred:['' @ f_preferred fs @ '']'']"

text \<open>The body of the loops of \<^verbatim>\<open>get_ontology_mappings\<close> on one entry.\<close>

definition enrich_entry :: "env \<Rightarrow> zooma_entry \<Rightarrow> zooma_entry" where
  "enrich_entry e zooma_entry =
     (let labelled =
            (case get_ontology_label_from_ols e (ze_uri zooma_entry) of
               Some label \<Rightarrow> zooma_entry\<lparr>ze_ontology_label := label\<rparr>
             | None \<Rightarrow> zooma_entry);
          uri_is_current_and_in_efo = is_current_and_in_efo e (ze_uri zooma_entry)
      in if \<not> uri_is_current_and_in_efo
         then labelled\<lparr>ze_in_efo := is_in_efo e (ze_uri zooma_entry)\<rparr>
         else labelled\<lparr>ze_in_efo := uri_is_current_and_in_efo,
                       ze_is_current := uri_is_current_and_in_efo\<rparr>)"

definition enrich_mapping :: "env \<Rightarrow> zooma_mapping \<Rightarrow> zooma_mapping" where
  "enrich_mapping e mapping =
     mapping\<lparr>zooma_entry_list := map (enrich_entry e) (zooma_entry_list mapping)\<rparr>"

definition get_ontology_mappings ::
  "env \<Rightarrow> string \<Rightarrow> filters \<Rightarrow> string \<Rightarrow> py_error + zooma_mapping list option" where
  "get_ontology_mappings e trait_name fs zooma_host =
     (case request_retry_helper (zooma_query_helper e) 4
             (build_zooma_query trait_name fs zooma_host) of
        Inl err \<Rightarrow> Inl err
      | Inr None \<Rightarrow> Inr None
      | Inr (Some zooma_response) \<Rightarrow>
          (case get_mappings_for_trait zooma_response of
             Inl err \<Rightarrow> Inl err
           | Inr mappings \<Rightarrow> Inr (Some (map (enrich_mapping e) mappings))))"

section \<open>The resolution of one trait\<close>

text \<open>
  \<open>process_trait\<close> returns the queries it sent to the cross-reference service (the
  identifiers, the targets and the distance of each call of \<^verbatim>\<open>get_oxo_results\<close>) beside
  the trait or the exception it ends with.
\<close>

type_synonym oxo_call = "string list \<times> string list \<times> int"

definition process_trait ::
  "env \<Rightarrow> trait \<Rightarrow> filters \<Rightarrow> string \<Rightarrow> string list \<Rightarrow> int \<Rightarrow> oxo_call list \<times> (py_error + trait)"
  where
  "process_trait e trait fs zooma_host oxo_target_list oxo_distance =
     (case get_ontology_mappings e (t_name trait) fs zooma_host of
        Inl err \<Rightarrow> ([], Inl err)
      | Inr zooma_mappings \<Rightarrow>
          (case process_zooma_mappings (trait\<lparr>zooma_mapping_list := zooma_mappings\<rparr>) of
             Inl err \<Rightarrow> ([], Inl err)
           | Inr trait1 \<Rightarrow>
               (case zooma_mapping_list trait1 of
                  None \<Rightarrow> ([], Inl TypeError)
                | Some mappings \<Rightarrow>
                    if is_finished trait1 \<or> length mappings = 0
                       \<or> list_ex (\<lambda>mapping. list_ex ze_is_current (zooma_entry_list mapping))
                            mappings
                    then ([], Inr trait1)
                    else
                      (let uris_for_oxo_set = get_uris_for_oxo mappings in
                       if length uris_for_oxo_set = 0 then ([], Inr trait1)
                       else
                         (case uris_to_oxo_format uris_for_oxo_set of
                            Inl err \<Rightarrow> ([], Inl err)
                          | Inr oxo_input_id_list \<Rightarrow>
                              (let calls = [(oxo_input_id_list, oxo_target_list, oxo_distance)]
                               in case get_oxo_results e oxo_input_id_list oxo_target_list
                                         oxo_distance of
                                    Inl err \<Rightarrow> (calls, Inl err)
                                  | Inr oxo_result_list \<Rightarrow>
                                      (calls,
                                       process_oxo_mappings
                                         (trait1\<lparr>oxo_xref_list := oxo_result_list\<rparr>))))))))"

section \<open>Example inputs\<close>

text \<open>Concrete entries, mapping groups, traits, responses and services, on which the
  theorems below are instantiated.\<close>

definition ex_entry_efo :: zooma_entry where
  "ex_entry_efo =
     \<lparr>ze_uri = ''http://www.ebi.ac.uk/efo/EFO_0003847'', ze_confidence = HIGH,
      ze_source = ''eva-clinvar'', ze_ontology_label = ''intellectual disability'',
      ze_in_efo = True, ze_is_current = True\<rparr>"

definition ex_entry_low :: zooma_entry where
  "ex_entry_low =
     \<lparr>ze_uri = ''http://www.orpha.net/ORDO/Orphanet_199318'', ze_confidence = LOW,
      ze_source = ''cttv'', ze_ontology_label = ''15q13.3 microdeletion syndrome'',
      ze_in_efo = True, ze_is_current = True\<rparr>"

definition ex_mapping_high :: zooma_mapping where
  "ex_mapping_high =
     \<lparr>zooma_label = ''intellectual disability'', zm_confidence = ''HIGH'',
      zm_source = ''eva-clinvar'', zooma_entry_list = [ex_entry_efo]\<rparr>"

definition ex_mapping_low :: zooma_mapping where
  "ex_mapping_low =
     \<lparr>zooma_label = ''microdeletion'', zm_confidence = ''LOW'', zm_source = ''cttv'',
      zooma_entry_list = [ex_entry_low]\<rparr>"

definition ex_trait_zooma :: trait where
  "ex_trait_zooma =
     (Trait ''intellectual disability'' 5)
       \<lparr>zooma_mapping_list := Some [ex_mapping_low, ex_mapping_high]\<rparr>"

definition ex_uri_efo :: ontology_uri where
  "ex_uri_efo = \<lparr>ou_id = ''0003847'', ou_db = ''EFO'', ou_uri = ''http://www.ebi.ac.uk/efo/EFO_0003847''\<rparr>"

definition ex_uri_hp :: ontology_uri where
  "ex_uri_hp = \<lparr>ou_id = ''0001249'', ou_db = ''HP'', ou_uri = ''http://purl.obolibrary.org/obo/HP_0001249''\<rparr>"

definition ex_oxo_near :: oxo_mapping where
  "ex_oxo_near =
     \<lparr>om_label = ''mental retardation'', om_db = ''EFO'', om_id = ''0003847'', om_uri = ex_uri_efo,
      om_distance = 1, om_query_id = ''Orphanet:199318'', om_in_efo = True, om_is_current = True,
      om_ontology_label = ''intellectual disability''\<rparr>"

definition ex_oxo_far :: oxo_mapping where
  "ex_oxo_far =
     \<lparr>om_label = ''Intellectual disability'', om_db = ''HP'', om_id = ''0001249'', om_uri = ex_uri_hp,
      om_distance = 2, om_query_id = ''Orphanet:199318'', om_in_efo = True, om_is_current = True,
      om_ontology_label = ''Intellectual disability''\<rparr>"

definition ex_uri_orphanet :: ontology_uri where
  "ex_uri_orphanet = \<lparr>ou_id = ''199318'', ou_db = ''Orphanet'', ou_uri = ''http://www.orpha.net/ORDO/Orphanet_199318''\<rparr>"

definition ex_oxo_result :: "oxo_mapping list \<Rightarrow> oxo_result" where
  "ex_oxo_result ms =
     \<lparr>or_query_id = ''Orphanet:199318'', or_label = ''15q13.3 microdeletion syndrome'',
      or_db = ''Orphanet'', or_id = ''199318'', or_uri = ex_uri_orphanet, oxo_mapping_list = ms\<rparr>"

definition ex_trait_oxo :: "oxo_mapping list \<Rightarrow> trait" where
  "ex_trait_oxo ms =
     (Trait ''15q13.3 microdeletion syndrome'' 2)\<lparr>oxo_xref_list := Some [ex_oxo_result ms]\<rparr>"

text \<open>A result object of the primary source that lacks one of the keys that
  \<open>get_mappings_for_trait\<close> reads, at any level of the nesting.\<close>

definition lacks_field :: "zooma_result_json \<Rightarrow> bool" where
  "lacks_field r \<longleftrightarrow>
     semanticTags r = None
     \<or> (case annotatedProperty r of None \<Rightarrow> True | Some a \<Rightarrow> aj_propertyValue a = None)
     \<or> confidence r = None
     \<or> (case derivedFrom r of
           None \<Rightarrow> True
         | Some d \<Rightarrow>
             (case dj_provenance d of
                None \<Rightarrow> True
              | Some p \<Rightarrow> (case pj_source p of None \<Rightarrow> True | Some s \<Rightarrow> sj_name s = None)))"

definition ex_filters :: filters where
  "ex_filters =
     \<lparr>f_required = ''cttv,eva-clinvar,gwas'', f_ontologies = ''efo,ordo,hp'',
      f_preferred = ''eva-clinvar,cttv,gwas''\<rparr>"

definition ex_result :: "string \<Rightarrow> string \<Rightarrow> zooma_result_json" where
  "ex_result uri conf =
     \<lparr>semanticTags = Some [uri],
      annotatedProperty = Some \<lparr>aj_propertyValue = Some ''intellectual disability''\<rparr>,
      confidence = Some conf,
      derivedFrom =
        Some \<lparr>dj_provenance = Some \<lparr>pj_source = Some \<lparr>sj_name = Some ''eva-clinvar''\<rparr>\<rparr>\<rparr>\<rparr>"

definition ex_env ::
  "(py_error + zooma_result_json list) \<Rightarrow> (string \<Rightarrow> bool) \<Rightarrow> (py_error + oxo_result list option)
     \<Rightarrow> env" where
  "ex_env response current oxo =
     \<lparr>requests_get_json = (\<lambda>url. response),
      get_ontology_label_from_ols = (\<lambda>uri. None),
      is_current_and_in_efo = current,
      is_in_efo = current,
      get_oxo_results = (\<lambda>id_list target_list distance. oxo)\<rparr>"

definition never_current :: "string \<Rightarrow> bool" where
  "never_current uri = False"

definition always_current :: "string \<Rightarrow> bool" where
  "always_current uri = True"

definition ex_result_no_confidence :: zooma_result_json where
  "ex_result_no_confidence =
     (ex_result ''http://www.ebi.ac.uk/efo/EFO_0003847'' ''HIGH'')\<lparr>confidence := None\<rparr>"

definition ex_env_bridge :: env where
  "ex_env_bridge =
     ex_env (Inr [ex_result ''http://www.orpha.net/ORDO/Orphanet_199318'' ''HIGH''])
       never_current (Inr (Some [ex_oxo_result [ex_oxo_far, ex_oxo_near]]))"

definition ex_env_current :: env where
  "ex_env_current =
     ex_env (Inr [ex_result ''http://www.ebi.ac.uk/efo/EFO_0003847'' ''LOW''])
       always_current (Inr (Some [ex_oxo_result [ex_oxo_far, ex_oxo_near]]))"

definition ex_env_nothing :: env where
  "ex_env_nothing = ex_env (Inr []) never_current (Inr None)"

definition ex_entry_good_a :: zooma_entry where
  "ex_entry_good_a =
     \<lparr>ze_uri = ''http://www.ebi.ac.uk/efo/EFO_0003847'', ze_confidence = GOOD,
      ze_source = ''eva-clinvar'', ze_ontology_label = ''intellectual disability'',
      ze_in_efo = True, ze_is_current = True\<rparr>"

definition ex_entry_good_b :: zooma_entry where
  "ex_entry_good_b =
     \<lparr>ze_uri = ''http://www.orpha.net/ORDO/Orphanet_199318'', ze_confidence = GOOD,
      ze_source = ''cttv'', ze_ontology_label = ''15q13.3 microdeletion syndrome'',
      ze_in_efo = True, ze_is_current = True\<rparr>"

definition ex_mapping_good :: "zooma_entry list \<Rightarrow> zooma_mapping" where
  "ex_mapping_good entries =
     \<lparr>zooma_label = ''intellectual disability'', zm_confidence = ''GOOD'',
      zm_source = ''eva-clinvar'', zooma_entry_list = entries\<rparr>"

definition ex_trait_good :: "zooma_entry list \<Rightarrow> trait" where
  "ex_trait_good entries =
     (Trait ''intellectual disability'' 5)
       \<lparr>zooma_mapping_list := Some [ex_mapping_good entries]\<rparr>"

section \<open>Sets as duplicate-free lists\<close>

lemma set_set_add: "set (set_add x s) = insert x (set s)"
  by (auto simp: set_add_def)

lemma distinct_set_add: "distinct s \<Longrightarrow> distinct (set_add x s)"
  by (simp add: set_add_def)

section \<open>The finish rule on primary mappings\<close>

lemma set_zooma_entries_finished:
  "set (zooma_entries_finished es fs) =
     set fs \<union> {OntologyEntry (ze_uri e) (ze_ontology_label e) | e.
                  e \<in> set es \<and> ze_in_efo e \<and> ze_is_current e}"
  by (induction es arbitrary: fs) (auto simp: set_set_add)

lemma set_zooma_mappings_finished:
  "set (zooma_mappings_finished ms fs) =
     set fs \<union> {OntologyEntry (ze_uri e) (ze_ontology_label e) | m e.
                  m \<in> set ms \<and> lower (zm_confidence m) = ''high''
                  \<and> e \<in> set (zooma_entry_list m) \<and> ze_in_efo e \<and> ze_is_current e}"
proof (induction ms arbitrary: fs)
  case Nil
  then show ?case by simp
next
  case (Cons m ms)
  show ?case
    unfolding zooma_mappings_finished.simps Cons.IH
    by (auto simp: set_zooma_entries_finished)
qed

lemma distinct_zooma_entries_finished:
  "distinct fs \<Longrightarrow> distinct (zooma_entries_finished es fs)"
  by (induction es arbitrary: fs) (simp_all add: distinct_set_add)

lemma distinct_zooma_mappings_finished:
  "distinct fs \<Longrightarrow> distinct (zooma_mappings_finished ms fs)"
  by (induction ms arbitrary: fs) (simp_all add: distinct_zooma_entries_finished)

lemma is_finished_iff: "is_finished u \<longleftrightarrow> set (finished_mapping_set u) \<noteq> {}"
  by (simp add: is_finished_def)

lemma OntologyEntry_fields:
  "oe = OntologyEntry uri label \<longleftrightarrow> oe_uri oe = uri \<and> oe_label oe = label"
  by (cases oe) (auto simp: OntologyEntry_def)

lemma insert_OntologyEntry:
  "insert (OntologyEntry uri label) S = S \<union> {oe. oe_uri oe = uri \<and> oe_label oe = label}"
  using OntologyEntry_fields [of _ uri label] by blast

lemma set_zooma_entries_finished_fields:
  "set (zooma_entries_finished es fs) =
     set fs \<union> {oe. \<exists>e. e \<in> set es \<and> ze_in_efo e \<and> ze_is_current e
                  \<and> oe_uri oe = ze_uri e \<and> oe_label oe = ze_ontology_label e}"
proof (induction es arbitrary: fs)
  case Nil
  then show ?case by simp
next
  case (Cons a es)
  show ?case
    unfolding zooma_entries_finished.simps Cons.IH
    by (auto simp: set_set_add insert_OntologyEntry)
qed

lemma set_zooma_mappings_finished_fields:
  "set (zooma_mappings_finished ms fs) =
     set fs \<union> {oe. \<exists>m e. m \<in> set ms \<and> lower (zm_confidence m) = ''high''
                  \<and> e \<in> set (zooma_entry_list m) \<and> ze_in_efo e \<and> ze_is_current e
                  \<and> oe_uri oe = ze_uri e \<and> oe_label oe = ze_ontology_label e}"
proof (induction ms arbitrary: fs)
  case Nil
  then show ?case by simp
next
  case (Cons m ms)
  show ?case
    unfolding zooma_mappings_finished.simps Cons.IH
    by (auto simp: set_zooma_entries_finished_fields)
qed


text \<open>
  Claim C2. On a trait whose \<^verbatim>\<open>zooma_mapping_list\<close> is a list, \<open>process_zooma_mappings\<close>
  returns, and the finished-mapping set it leaves is the one it found extended by exactly
  the entries whose URI and label are the URI and the ontology label of a primary entry
  that has efo-membership and currency true and belongs to a mapping group whose
  confidence is "high" (in any letter case). So the trait is finished afterwards iff it
  was before (never so for the fresh trait of \<^verbatim>\<open>main\<close>) or there is such an entry; an
  entry of a group of another confidence adds nothing.
\<close>

theorem process_zooma_mappings_finish:
  assumes "zooma_mapping_list t = Some ms"
  shows "\<exists>t'. process_zooma_mappings t = Inr t'
     \<and> set (finished_mapping_set t') =
         set (finished_mapping_set t) \<union>
         {oe. \<exists>m e. m \<in> set ms \<and> lower (zm_confidence m) = ''high''
            \<and> e \<in> set (zooma_entry_list m) \<and> ze_in_efo e \<and> ze_is_current e
            \<and> oe_uri oe = ze_uri e \<and> oe_label oe = ze_ontology_label e}
     \<and> (is_finished t' \<longleftrightarrow>
          is_finished t \<or>
          (\<exists>m e. m \<in> set ms \<and> lower (zm_confidence m) = ''high''
            \<and> e \<in> set (zooma_entry_list m) \<and> ze_in_efo e \<and> ze_is_current e))"
proof -
  let ?t' = "t\<lparr>finished_mapping_set := zooma_mappings_finished ms (finished_mapping_set t)\<rparr>"
  let ?new = "{oe. \<exists>m e. m \<in> set ms \<and> lower (zm_confidence m) = ''high''
            \<and> e \<in> set (zooma_entry_list m) \<and> ze_in_efo e \<and> ze_is_current e
            \<and> oe_uri oe = ze_uri e \<and> oe_label oe = ze_ontology_label e}"
  have run: "process_zooma_mappings t = Inr ?t'"
    using assms by (simp add: process_zooma_mappings_def)
  have sets: "set (finished_mapping_set ?t') = set (finished_mapping_set t) \<union> ?new"
    by (simp add: set_zooma_mappings_finished_fields)
  have old: "set (finished_mapping_set ?t') =
         set (finished_mapping_set t) \<union>
         {OntologyEntry (ze_uri e) (ze_ontology_label e) | m e.
            m \<in> set ms \<and> lower (zm_confidence m) = ''high''
            \<and> e \<in> set (zooma_entry_list m) \<and> ze_in_efo e \<and> ze_is_current e}"
    by (simp add: set_zooma_mappings_finished)
  have fin: "is_finished ?t' \<longleftrightarrow>
          is_finished t \<or>
          (\<exists>m e. m \<in> set ms \<and> lower (zm_confidence m) = ''high''
            \<and> e \<in> set (zooma_entry_list m) \<and> ze_in_efo e \<and> ze_is_current e)"
    unfolding is_finished_iff old by blast
  show ?thesis
    by (intro exI [of _ ?t'] conjI) (rule run, rule sets, rule fin)
qed

theorem process_zooma_mappings_finish_witness:
  "zooma_mapping_list ex_trait_zooma = Some [ex_mapping_low, ex_mapping_high]
   \<and> \<not> is_finished ex_trait_zooma
   \<and> (\<exists>t'. process_zooma_mappings ex_trait_zooma = Inr t'
        \<and> set (finished_mapping_set t') =
            {\<lparr>oe_uri = ''http://www.ebi.ac.uk/efo/EFO_0003847'',
              oe_label = ''intellectual disability''\<rparr>}
        \<and> is_finished t')"
proof -
  have h: "zooma_mapping_list ex_trait_zooma = Some [ex_mapping_low, ex_mapping_high]"
    by (simp add: ex_trait_zooma_def)
  have e: "finished_mapping_set ex_trait_zooma = []"
    by (simp add: ex_trait_zooma_def Trait_def)
  from process_zooma_mappings_finish [OF h] obtain t' where
    run: "process_zooma_mappings ex_trait_zooma = Inr t'" and
    sets: "set (finished_mapping_set t') =
         set (finished_mapping_set ex_trait_zooma) \<union>
         {oe. \<exists>m e. m \<in> set [ex_mapping_low, ex_mapping_high]
            \<and> lower (zm_confidence m) = ''high''
            \<and> e \<in> set (zooma_entry_list m) \<and> ze_in_efo e \<and> ze_is_current e
            \<and> oe_uri oe = ze_uri e \<and> oe_label oe = ze_ontology_label e}"
    by blast
  have "set (finished_mapping_set t') =
          set (zooma_mappings_finished [ex_mapping_low, ex_mapping_high] [])"
    unfolding sets e by (simp only: set_zooma_mappings_finished_fields)
  also have "\<dots> =
          {\<lparr>oe_uri = ''http://www.ebi.ac.uk/efo/EFO_0003847'',
            oe_label = ''intellectual disability''\<rparr>}"
    by (simp add: ex_mapping_low_def ex_mapping_high_def ex_entry_efo_def lower_def
        lower_char_def set_add_def OntologyEntry_def)
  finally have fs: "set (finished_mapping_set t') =
          {\<lparr>oe_uri = ''http://www.ebi.ac.uk/efo/EFO_0003847'',
            oe_label = ''intellectual disability''\<rparr>}" .
  have fin: "is_finished t'"
    unfolding is_finished_iff fs by (rule insert_not_empty)
  have nf: "\<not> is_finished ex_trait_zooma"
    by (simp add: is_finished_def e)
  show ?thesis
    by (intro conjI exI [of _ t']) (rule h, rule nf, rule run, rule fs, rule fin)
qed

section \<open>The finish rule on cross-reference mappings\<close>

lemma set_oxo_mappings_finished:
  "set (oxo_mappings_finished ms fs) =
     set fs \<union> {OntologyEntry (OntologyUri_str (om_uri m)) (om_ontology_label m) | m.
                  m \<in> set ms \<and> om_in_efo m \<and> om_is_current m \<and> om_distance m = 1}"
  by (induction ms arbitrary: fs) (auto simp: set_set_add)

lemma set_oxo_results_finished:
  "set (oxo_results_finished rs fs) =
     set fs \<union> {OntologyEntry (OntologyUri_str (om_uri m)) (om_ontology_label m) | r m.
                  r \<in> set rs \<and> m \<in> set (oxo_mapping_list r)
                  \<and> om_in_efo m \<and> om_is_current m \<and> om_distance m = 1}"
proof (induction rs arbitrary: fs)
  case Nil
  then show ?case by simp
next
  case (Cons r rs)
  show ?case
    unfolding oxo_results_finished.simps Cons.IH
    by (auto simp: set_oxo_mappings_finished)
qed

lemma set_oxo_mappings_finished_fields:
  "set (oxo_mappings_finished ms fs) =
     set fs \<union> {oe. \<exists>m. m \<in> set ms \<and> om_in_efo m \<and> om_is_current m \<and> om_distance m = 1
                  \<and> oe_uri oe = ou_uri (om_uri m) \<and> oe_label oe = om_ontology_label m}"
proof (induction ms arbitrary: fs)
  case Nil
  then show ?case by simp
next
  case (Cons a ms)
  show ?case
    unfolding oxo_mappings_finished.simps Cons.IH
    by (auto simp: set_set_add insert_OntologyEntry OntologyUri_str_def)
qed

lemma set_oxo_results_finished_fields:
  "set (oxo_results_finished rs fs) =
     set fs \<union> {oe. \<exists>r m. r \<in> set rs \<and> m \<in> set (oxo_mapping_list r)
                  \<and> om_in_efo m \<and> om_is_current m \<and> om_distance m = 1
                  \<and> oe_uri oe = ou_uri (om_uri m) \<and> oe_label oe = om_ontology_label m}"
proof (induction rs arbitrary: fs)
  case Nil
  then show ?case by simp
next
  case (Cons r rs)
  show ?case
    unfolding oxo_results_finished.simps Cons.IH
    by (auto simp: set_oxo_mappings_finished_fields)
qed

text \<open>
  Claim C4. On a trait whose \<^verbatim>\<open>oxo_xref_list\<close> is a list, \<open>process_oxo_mappings\<close> returns,
  and it extends the finished-mapping set by exactly the entries whose URI and label are
  the URI (the string of the mapping's \<^verbatim>\<open>OntologyUri\<close>) and the ontology label of a returned
  mapping that has efo-membership true, currency true and distance 1. The trait (not
  finished before, as in \<^verbatim>\<open>process_trait\<close>) is finished afterwards iff there is such a
  mapping; a mapping of distance 2 with both flags true adds nothing.
\<close>

theorem process_oxo_mappings_finish:
  assumes "oxo_xref_list t = Some rs"
  shows "\<exists>t'. process_oxo_mappings t = Inr t'
     \<and> set (finished_mapping_set t') =
         set (finished_mapping_set t) \<union>
         {oe. \<exists>r m. r \<in> set rs \<and> m \<in> set (oxo_mapping_list r)
            \<and> om_in_efo m \<and> om_is_current m \<and> om_distance m = 1
            \<and> oe_uri oe = ou_uri (om_uri m) \<and> oe_label oe = om_ontology_label m}
     \<and> (is_finished t' \<longleftrightarrow>
          is_finished t \<or>
          (\<exists>r m. r \<in> set rs \<and> m \<in> set (oxo_mapping_list r)
            \<and> om_in_efo m \<and> om_is_current m \<and> om_distance m = 1))"
proof -
  let ?t' = "t\<lparr>finished_mapping_set := oxo_results_finished rs (finished_mapping_set t)\<rparr>"
  have run: "process_oxo_mappings t = Inr ?t'"
    using assms by (simp add: process_oxo_mappings_def)
  have sets: "set (finished_mapping_set ?t') =
         set (finished_mapping_set t) \<union>
         {oe. \<exists>r m. r \<in> set rs \<and> m \<in> set (oxo_mapping_list r)
            \<and> om_in_efo m \<and> om_is_current m \<and> om_distance m = 1
            \<and> oe_uri oe = ou_uri (om_uri m) \<and> oe_label oe = om_ontology_label m}"
    by (simp add: set_oxo_results_finished_fields)
  have old: "set (finished_mapping_set ?t') =
         set (finished_mapping_set t) \<union>
         {OntologyEntry (OntologyUri_str (om_uri m)) (om_ontology_label m) | r m.
            r \<in> set rs \<and> m \<in> set (oxo_mapping_list r)
            \<and> om_in_efo m \<and> om_is_current m \<and> om_distance m = 1}"
    by (simp add: set_oxo_results_finished)
  have fin: "is_finished ?t' \<longleftrightarrow>
          is_finished t \<or>
          (\<exists>r m. r \<in> set rs \<and> m \<in> set (oxo_mapping_list r)
            \<and> om_in_efo m \<and> om_is_current m \<and> om_distance m = 1)"
    unfolding is_finished_iff old by blast
  show ?thesis
    by (intro exI [of _ ?t'] conjI) (rule run, rule sets, rule fin)
qed

theorem process_oxo_mappings_finish_witness:
  "oxo_xref_list (ex_trait_oxo [ex_oxo_far]) = Some [ex_oxo_result [ex_oxo_far]]
   \<and> oxo_xref_list (ex_trait_oxo [ex_oxo_far, ex_oxo_near])
       = Some [ex_oxo_result [ex_oxo_far, ex_oxo_near]]
   \<and> (\<exists>t'. process_oxo_mappings (ex_trait_oxo [ex_oxo_far]) = Inr t'
        \<and> set (finished_mapping_set t') = {} \<and> \<not> is_finished t')
   \<and> (\<exists>t'. process_oxo_mappings (ex_trait_oxo [ex_oxo_far, ex_oxo_near]) = Inr t'
        \<and> set (finished_mapping_set t') =
            {\<lparr>oe_uri = ''http://www.ebi.ac.uk/efo/EFO_0003847'',
              oe_label = ''intellectual disability''\<rparr>}
        \<and> is_finished t')"
proof -
  have h: "oxo_xref_list (ex_trait_oxo ms) = Some [ex_oxo_result ms]" for ms
    by (simp add: ex_trait_oxo_def)
  have e: "finished_mapping_set (ex_trait_oxo ms) = []" for ms
    by (simp add: ex_trait_oxo_def Trait_def)
  have far: "\<exists>t'. process_oxo_mappings (ex_trait_oxo [ex_oxo_far]) = Inr t'
        \<and> set (finished_mapping_set t') = {} \<and> \<not> is_finished t'"
  proof -
    from process_oxo_mappings_finish [OF h [of "[ex_oxo_far]"]] obtain t' where
      run: "process_oxo_mappings (ex_trait_oxo [ex_oxo_far]) = Inr t'" and
      sets: "set (finished_mapping_set t') =
         set (finished_mapping_set (ex_trait_oxo [ex_oxo_far])) \<union>
         {oe. \<exists>r m. r \<in> set [ex_oxo_result [ex_oxo_far]] \<and> m \<in> set (oxo_mapping_list r)
            \<and> om_in_efo m \<and> om_is_current m \<and> om_distance m = 1
            \<and> oe_uri oe = ou_uri (om_uri m) \<and> oe_label oe = om_ontology_label m}"
      by blast
    have "set (finished_mapping_set t')
            = set (oxo_results_finished [ex_oxo_result [ex_oxo_far]] [])"
      unfolding sets e by (simp only: set_oxo_results_finished_fields)
    also have "\<dots> = {}"
      by (simp add: ex_oxo_result_def ex_oxo_far_def)
    finally have fs: "set (finished_mapping_set t') = {}" .
    have nf: "\<not> is_finished t'"
      unfolding is_finished_iff fs by simp
    show ?thesis
      by (intro conjI exI [of _ t']) (rule run, rule fs, rule nf)
  qed
  have near: "\<exists>t'. process_oxo_mappings (ex_trait_oxo [ex_oxo_far, ex_oxo_near]) = Inr t'
        \<and> set (finished_mapping_set t') =
            {\<lparr>oe_uri = ''http://www.ebi.ac.uk/efo/EFO_0003847'',
              oe_label = ''intellectual disability''\<rparr>}
        \<and> is_finished t'"
  proof -
    from process_oxo_mappings_finish [OF h [of "[ex_oxo_far, ex_oxo_near]"]] obtain t' where
      run: "process_oxo_mappings (ex_trait_oxo [ex_oxo_far, ex_oxo_near]) = Inr t'" and
      sets: "set (finished_mapping_set t') =
         set (finished_mapping_set (ex_trait_oxo [ex_oxo_far, ex_oxo_near])) \<union>
         {oe. \<exists>r m. r \<in> set [ex_oxo_result [ex_oxo_far, ex_oxo_near]]
            \<and> m \<in> set (oxo_mapping_list r)
            \<and> om_in_efo m \<and> om_is_current m \<and> om_distance m = 1
            \<and> oe_uri oe = ou_uri (om_uri m) \<and> oe_label oe = om_ontology_label m}"
      by blast
    have "set (finished_mapping_set t') =
            set (oxo_results_finished [ex_oxo_result [ex_oxo_far, ex_oxo_near]] [])"
      unfolding sets e by (simp only: set_oxo_results_finished_fields)
    also have "\<dots> =
            {\<lparr>oe_uri = ''http://www.ebi.ac.uk/efo/EFO_0003847'',
              oe_label = ''intellectual disability''\<rparr>}"
      by (simp add: ex_oxo_result_def ex_oxo_far_def ex_oxo_near_def ex_uri_efo_def
          OntologyUri_str_def set_add_def OntologyEntry_def)
    finally have fs: "set (finished_mapping_set t') =
            {\<lparr>oe_uri = ''http://www.ebi.ac.uk/efo/EFO_0003847'',
              oe_label = ''intellectual disability''\<rparr>}" .
    have fin: "is_finished t'"
      unfolding is_finished_iff fs by (rule insert_not_empty)
    show ?thesis
      by (intro conjI exI [of _ t']) (rule run, rule fs, rule fin)
  qed
  show ?thesis
    by (intro conjI) (rule h, rule h, rule far, rule near)
qed

section \<open>The ontology URI formatter\<close>

lemma format1_braces: "CHR ''{'' \<notin> set p \<Longrightarrow> format1 (p @ ''{}'') a = p @ a"
  by (induction p) auto

lemma OntologyUri_unknown:
  "map_of db_to_uri_dict (lower db) = None \<Longrightarrow> OntologyUri ident db = Inl KeyError"
  by (auto simp: OntologyUri_def)

lemma OntologyUri_known:
  assumes "map_of db_to_uri_dict (lower db) = Some (p @ ''{}'')" and "CHR ''{'' \<notin> set p"
  shows "OntologyUri ident db =
     Inr \<lparr>ou_id = ident, ou_db = db,
          ou_uri = p @ (if lower db = ''human phenotype ontology'' then drop 3 ident else ident)\<rparr>"
  using assms by (auto simp: OntologyUri_def format1_braces)

text \<open>
  The identifier \<^verbatim>\<open>HP0002066\<close> has no separator after its prefix: stripping three characters
  removes a digit, and the URI ends in \<^verbatim>\<open>HP_002066\<close>, not in \<^verbatim>\<open>HP_0002066\<close>.
\<close>

theorem OntologyUri_HP0002066_counterexample:
  "OntologyUri ''HP0002066'' ''human phenotype ontology'' =
     Inr \<lparr>ou_id = ''HP0002066'', ou_db = ''human phenotype ontology'',
          ou_uri = ''http://purl.obolibrary.org/obo/HP_002066''\<rparr>
   \<and> ''http://purl.obolibrary.org/obo/HP_002066'' \<noteq> ''http://purl.obolibrary.org/obo/HP_0002066''
   \<and> drop (length ''http://purl.obolibrary.org/obo/HP_002066'' - length ''HP_0002066'')
        ''http://purl.obolibrary.org/obo/HP_002066'' \<noteq> ''HP_0002066''"
  by (simp add: OntologyUri_def lower_def lower_char_def db_to_uri_dict_def)

text \<open>
  Claim C9, amended. The database name is looked up in lower case. For "orphanet" the URI
  is the Orphanet prefix followed by the identifier (\<^verbatim>\<open>199318\<close> gives a URI ending in
  \<^verbatim>\<open>Orphanet_199318\<close>). For "human phenotype ontology", and for that name only, the first
  three characters of the identifier are dropped, whatever they are: \<^verbatim>\<open>HP:0002066\<close> gives a
  URI ending in \<^verbatim>\<open>HP_0002066\<close>. For "hp" and every other key of the table the identifier is
  substituted whole. For a name that is not a key the constructor raises \<^verbatim>\<open>KeyError\<close>, and
  the constructors of \<^verbatim>\<open>OxOMapping\<close> and \<^verbatim>\<open>OxOResult\<close>, which call it, raise it too.
\<close>

theorem OntologyUri_formats:
  "(lower db = ''orphanet'' \<longrightarrow>
      OntologyUri ident db =
        Inr \<lparr>ou_id = ident, ou_db = db, ou_uri = ''http://www.orpha.net/ORDO/Orphanet_'' @ ident\<rparr>)
   \<and> (lower db = ''human phenotype ontology'' \<longrightarrow>
      OntologyUri ident db =
        Inr \<lparr>ou_id = ident, ou_db = db,
             ou_uri = ''http://purl.obolibrary.org/obo/HP_'' @ drop 3 ident\<rparr>)
   \<and> (lower db = ''hp'' \<longrightarrow>
      OntologyUri ident db =
        Inr \<lparr>ou_id = ident, ou_db = db, ou_uri = ''http://purl.obolibrary.org/obo/HP_'' @ ident\<rparr>)
   \<and> (lower db \<noteq> ''human phenotype ontology'' \<longrightarrow>
      map_of db_to_uri_dict (lower db) = Some template \<longrightarrow>
      OntologyUri ident db = Inr \<lparr>ou_id = ident, ou_db = db, ou_uri = format1 template ident\<rparr>)
   \<and> (map_of db_to_uri_dict (lower db) = None \<longrightarrow>
      OntologyUri ident db = Inl KeyError
      \<and> (split_str (CHR '':'') curie = [db, ident] \<longrightarrow>
           OxOMapping label curie distance query_id = Inl KeyError
           \<and> OxOResult query_id label curie = Inl KeyError))"
proof -
  have a: "lower db = ''orphanet'' \<Longrightarrow>
      OntologyUri ident db =
        Inr \<lparr>ou_id = ident, ou_db = db, ou_uri = ''http://www.orpha.net/ORDO/Orphanet_'' @ ident\<rparr>"
    using OntologyUri_known [of db "''http://www.orpha.net/ORDO/Orphanet_''" ident]
    by (simp add: db_to_uri_dict_def)
  have b: "lower db = ''human phenotype ontology'' \<Longrightarrow>
      OntologyUri ident db =
        Inr \<lparr>ou_id = ident, ou_db = db,
             ou_uri = ''http://purl.obolibrary.org/obo/HP_'' @ drop 3 ident\<rparr>"
    using OntologyUri_known [of db "''http://purl.obolibrary.org/obo/HP_''" ident]
    by (simp add: db_to_uri_dict_def)
  have c: "lower db = ''hp'' \<Longrightarrow>
      OntologyUri ident db =
        Inr \<lparr>ou_id = ident, ou_db = db, ou_uri = ''http://purl.obolibrary.org/obo/HP_'' @ ident\<rparr>"
    using OntologyUri_known [of db "''http://purl.obolibrary.org/obo/HP_''" ident]
    by (simp add: db_to_uri_dict_def)
  have d: "lower db \<noteq> ''human phenotype ontology'' \<Longrightarrow>
      map_of db_to_uri_dict (lower db) = Some template \<Longrightarrow>
      OntologyUri ident db = Inr \<lparr>ou_id = ident, ou_db = db, ou_uri = format1 template ident\<rparr>"
    by (auto simp: OntologyUri_def)
  have e: "map_of db_to_uri_dict (lower db) = None \<Longrightarrow>
      OntologyUri ident db = Inl KeyError
      \<and> (split_str (CHR '':'') curie = [db, ident] \<longrightarrow>
           OxOMapping label curie distance query_id = Inl KeyError
           \<and> OxOResult query_id label curie = Inl KeyError)"
    by (simp add: OntologyUri_unknown OxOMapping_def OxOResult_def)
  from a b c d e show ?thesis by blast
qed

theorem OntologyUri_formats_witness:
  "OntologyUri ''199318'' ''Orphanet'' =
     Inr \<lparr>ou_id = ''199318'', ou_db = ''Orphanet'',
          ou_uri = ''http://www.orpha.net/ORDO/Orphanet_199318''\<rparr>
   \<and> OntologyUri ''HP:0002066'' ''Human Phenotype Ontology'' =
     Inr \<lparr>ou_id = ''HP:0002066'', ou_db = ''Human Phenotype Ontology'',
          ou_uri = ''http://purl.obolibrary.org/obo/HP_0002066''\<rparr>
   \<and> OntologyUri ''0002066'' ''HP'' =
     Inr \<lparr>ou_id = ''0002066'', ou_db = ''HP'',
          ou_uri = ''http://purl.obolibrary.org/obo/HP_0002066''\<rparr>
   \<and> OntologyUri ''615120'' ''OMIM'' =
     Inr \<lparr>ou_id = ''615120'', ou_db = ''OMIM'', ou_uri = ''http://identifiers.org/omim/615120''\<rparr>
   \<and> OntologyUri ''0060041'' ''DOID'' = Inl KeyError
   \<and> OxOMapping ''autism spectrum disorder'' ''DOID:0060041'' 1 ''EFO:0003756'' = Inl KeyError
   \<and> OxOResult ''EFO:0003756'' ''autism spectrum disorder'' ''DOID:0060041'' = Inl KeyError"
proof -
  have l: "lower ''Orphanet'' = ''orphanet''"
      "lower ''Human Phenotype Ontology'' = ''human phenotype ontology''"
      "lower ''HP'' = ''hp''" "lower ''OMIM'' = ''omim''" "lower ''DOID'' = ''doid''"
    by (simp_all add: lower_def lower_char_def)
  have s: "split_str (CHR '':'') ''DOID:0060041'' = [''DOID'', ''0060041'']"
    by (simp add: split_str_def)
  show ?thesis
    using OntologyUri_formats [of "''Orphanet''" "''199318''"]
      OntologyUri_formats [of "''Human Phenotype Ontology''" "''HP:0002066''"]
      OntologyUri_formats [of "''HP''" "''0002066''"]
      OntologyUri_formats [of "''OMIM''" "''615120''" "''http://identifiers.org/omim/{}''"]
      OntologyUri_formats [of "''DOID''" "''0060041''" _ "''DOID:0060041''"
        "''autism spectrum disorder''" 1 "''EFO:0003756''"]
    by (simp add: l s db_to_uri_dict_def)
qed

section \<open>The equality test of cross-reference mappings\<close>

text \<open>
  Claim C10. \<^verbatim>\<open>a == b\<close> on two \<^verbatim>\<open>OxOMapping\<close> values is a tuple of seven booleans, one
  for each compared field, and so is true in a boolean context whatever the fields are;
  against an object of another class the test returns \<^verbatim>\<open>False\<close>.
\<close>

theorem OxOMapping_eq_tuple:
  "OxOMapping_eq a (OxOMappingObj b) =
     TupleResult
       [om_label a = om_label b, om_db a = om_db b, om_id a = om_id b,
        om_distance a = om_distance b, om_in_efo a = om_in_efo b,
        om_is_current a = om_is_current b, om_ontology_label a = om_ontology_label b]
   \<and> (\<exists>bs. OxOMapping_eq a (OxOMappingObj b) = TupleResult bs \<and> length bs = 7)
   \<and> truthy (OxOMapping_eq a (OxOMappingObj b))
   \<and> OxOMapping_eq a (ZoomaEntryObj z) = BoolResult False
   \<and> OxOMapping_eq a (OxOResultObj r) = BoolResult False
   \<and> OxOMapping_eq a (StrObj s) = BoolResult False
   \<and> OxOMapping_eq a NoneObj = BoolResult False
   \<and> \<not> truthy (OxOMapping_eq a NoneObj)"
  by simp

section \<open>Identifiers for the cross-reference service: a URI that raises\<close>

text \<open>
  Claim C6 fails on the code. The guard of \<open>uri_to_oxo_format\<close> tests whether a key of the
  table occurs anywhere in the URI, the lookup takes the second-to-last path segment: the
  URI below contains \<^verbatim>\<open>omim\<close> in its host name, its second-to-last segment \<^verbatim>\<open>entry\<close> is not a
  key, and the lookup raises \<^verbatim>\<open>KeyError\<close>, which \<open>uris_to_oxo_format\<close> does not catch. A URI
  that is a bare key has no second-to-last segment and raises \<^verbatim>\<open>IndexError\<close>.
\<close>

theorem uris_to_oxo_format_raises:
  "map_of URI_DB_TO_DB_DICT (lower ''entry'') = None
   \<and> uri_to_oxo_format ''https://www.omim.org/entry/123456'' = Inl KeyError
   \<and> uris_to_oxo_format
        [''http://www.orpha.net/ORDO/Orphanet_199318'', ''https://www.omim.org/entry/123456'']
      = Inl KeyError
   \<and> uris_to_oxo_format [''http://www.orpha.net/ORDO/Orphanet_199318'']
      = Inr [''Orphanet:199318'']
   \<and> uri_to_oxo_format ''efo'' = Inl IndexError"
  by (simp add: uri_to_oxo_format_def lower_def lower_char_def URI_DB_TO_DB_DICT_def
      split_str_def rstrip_str_def py_getitem_def NON_NUMERIC_RE_sub_def)

section \<open>Failures of the primary source\<close>

lemma request_retry_helper_None:
  "func url = Inr None \<Longrightarrow> request_retry_helper func n url = Inr None"
  by (induction n) simp_all

lemma request_retry_helper_Some:
  "func url = Inr (Some v) \<Longrightarrow> request_retry_helper func (Suc n) url = Inr (Some v)"
  by simp

lemma request_retry_helper_4_None:
  "func url = Inr None \<Longrightarrow> request_retry_helper func 4 url = Inr None"
  by (rule request_retry_helper_None)

lemma request_retry_helper_4_Some:
  "func url = Inr (Some v) \<Longrightarrow> request_retry_helper func 4 url = Inr (Some v)"
  using request_retry_helper_Some [of func url v 3] by (simp add: numeral_eq_Suc)

text \<open>
  Claim C1 fails on the code. When the request to the primary source cannot be decoded,
  \<open>zooma_query_helper\<close> returns \<^verbatim>\<open>None\<close> at each of the four attempts and
  \<open>get_ontology_mappings\<close> returns \<^verbatim>\<open>None\<close>. \<open>process_trait\<close> stores it in the trait, and
  \<open>process_zooma_mappings\<close> iterates it: \<^verbatim>\<open>TypeError\<close>, before any query of the
  cross-reference service.
\<close>

theorem process_trait_zooma_absent:
  assumes "requests_get_json e (build_zooma_query (t_name trait) fs zooma_host)
           = Inl JSONDecodeError"
  shows "get_ontology_mappings e (t_name trait) fs zooma_host = Inr None
     \<and> process_trait e trait fs zooma_host oxo_target_list oxo_distance = ([], Inl TypeError)"
proof -
  have "zooma_query_helper e (build_zooma_query (t_name trait) fs zooma_host) = Inr None"
    using assms by (simp add: zooma_query_helper_def)
  then have absent: "get_ontology_mappings e (t_name trait) fs zooma_host = Inr None"
    by (simp add: get_ontology_mappings_def request_retry_helper_4_None)
  then show ?thesis
    by (simp add: process_trait_def process_zooma_mappings_def)
qed

theorem process_trait_zooma_absent_witness:
  "requests_get_json (ex_env (Inl JSONDecodeError) never_current (Inr None))
     (build_zooma_query (t_name (Trait ''intellectual disability'' 5)) ex_filters
        ''https://www.ebi.ac.uk'')
     = Inl JSONDecodeError
   \<and> process_trait (ex_env (Inl JSONDecodeError) never_current (Inr None))
       (Trait ''intellectual disability'' 5) ex_filters ''https://www.ebi.ac.uk''
       [''Orphanet'', ''efo'', ''hp''] 3
     = ([], Inl TypeError)"
proof -
  have h: "requests_get_json (ex_env (Inl JSONDecodeError) never_current (Inr None))
     (build_zooma_query (t_name (Trait ''intellectual disability'' 5)) ex_filters
        ''https://www.ebi.ac.uk'')
     = Inl JSONDecodeError"
    by (simp add: ex_env_def)
  from process_trait_zooma_absent [OF h] h show ?thesis by blast
qed

section \<open>Responses of the primary source that lack a field\<close>

lemma zooma_entries_of_error:
  "zooma_entries_of uris conf src = Inl err \<Longrightarrow> err = KeyError"
  by (induction uris arbitrary: err)
    (auto simp: ZoomaEntry_def ZoomaConfidence_getitem_def split: sum.splits if_splits)

lemma result_source_name_error:
  "result_source_name r = Inl err \<Longrightarrow> err = KeyError"
  by (auto simp: result_source_name_def subscript_def split: option.splits)

lemma result_mapping_error:
  "result_mapping r = Inl err \<Longrightarrow> err = KeyError"
  by (auto simp: result_mapping_def subscript_def ZoomaMapping_def
      dest: result_source_name_error zooma_entries_of_error
      split: option.splits sum.splits)

lemma lacks_field_result_mapping:
  "lacks_field r \<Longrightarrow> result_mapping r = Inl KeyError"
  by (auto simp: lacks_field_def result_mapping_def result_source_name_def subscript_def
      split: option.splits)

lemma get_mappings_for_trait_error:
  "get_mappings_for_trait resp = Inl err \<Longrightarrow> err = KeyError"
  by (induction resp arbitrary: err)
    (auto dest: result_mapping_error split: sum.splits)

lemma get_mappings_for_trait_lacks_field:
  "r \<in> set resp \<Longrightarrow> lacks_field r \<Longrightarrow> get_mappings_for_trait resp = Inl KeyError"
proof (induction resp)
  case Nil
  then show ?case by simp
next
  case (Cons a resp)
  show ?case
  proof (cases "result_mapping a")
    case (Inl err)
    then show ?thesis using result_mapping_error [OF Inl] by simp
  next
    case (Inr m)
    with Cons.prems have "r \<in> set resp"
      by (auto dest: lacks_field_result_mapping)
    with Cons have "get_mappings_for_trait resp = Inl KeyError" by blast
    with Inr show ?thesis by simp
  qed
qed

text \<open>
  A response that decodes to one result object without the key \<^verbatim>\<open>confidence\<close>: the
  subscript in \<open>get_mappings_for_trait\<close> raises \<^verbatim>\<open>KeyError\<close>, which nothing catches, and
  \<open>process_trait\<close> ends with it.
\<close>

theorem malformed_response_counterexample:
  "requests_get_json (ex_env (Inr [ex_result_no_confidence]) never_current (Inr None))
     (build_zooma_query ''intellectual disability'' ex_filters ''https://www.ebi.ac.uk'')
     = Inr [ex_result_no_confidence]
   \<and> confidence ex_result_no_confidence = None
   \<and> get_mappings_for_trait [ex_result_no_confidence] = Inl KeyError
   \<and> process_trait (ex_env (Inr [ex_result_no_confidence]) never_current (Inr None))
       (Trait ''intellectual disability'' 5) ex_filters ''https://www.ebi.ac.uk''
       [''Orphanet'', ''efo'', ''hp''] 3
     = ([], Inl KeyError)"
proof -
  have r: "result_mapping ex_result_no_confidence = Inl KeyError"
    by (simp add: ex_result_no_confidence_def ex_result_def result_mapping_def subscript_def)
  have g: "get_mappings_for_trait [ex_result_no_confidence] = Inl KeyError"
    by (simp add: r)
  have q: "zooma_query_helper (ex_env (Inr [ex_result_no_confidence]) never_current (Inr None)) url
        = Inr (Some [ex_result_no_confidence])" for url
    by (simp add: zooma_query_helper_def ex_env_def)
  have "get_ontology_mappings (ex_env (Inr [ex_result_no_confidence]) never_current (Inr None))
          ''intellectual disability'' ex_filters ''https://www.ebi.ac.uk'' = Inl KeyError"
    by (simp add: get_ontology_mappings_def request_retry_helper_4_Some [OF q] r)
  then have "process_trait (ex_env (Inr [ex_result_no_confidence]) never_current (Inr None))
       (Trait ''intellectual disability'' 5) ex_filters ''https://www.ebi.ac.uk''
       [''Orphanet'', ''efo'', ''hp''] 3
     = ([], Inl KeyError)"
    by (simp add: process_trait_def Trait_def)
  with g show ?thesis
    by (simp add: ex_env_def ex_result_no_confidence_def)
qed

text \<open>
  Claim C7, amended. A response that cannot be decoded is recovered as an absent
  result: \<open>zooma_query_helper\<close> catches \<^verbatim>\<open>JSONDecodeError\<close> and \<open>get_ontology_mappings\<close>
  returns \<^verbatim>\<open>None\<close>. A response that decodes but has a result object lacking one of the
  keys read by \<open>get_mappings_for_trait\<close> (the semantic tags, the annotated property value,
  the confidence, the name of the provenance source) is not recovered: the parsing raises
  \<^verbatim>\<open>KeyError\<close>, and the exception leaves \<open>get_ontology_mappings\<close> and \<open>process_trait\<close>.
\<close>

theorem malformed_response_not_recovered:
  "(requests_get_json e (build_zooma_query (t_name trait) fs zooma_host) = Inl JSONDecodeError
      \<longrightarrow> get_ontology_mappings e (t_name trait) fs zooma_host = Inr None)
   \<and> (requests_get_json e (build_zooma_query (t_name trait) fs zooma_host) = Inr resp
        \<and> r \<in> set resp \<and> lacks_field r
      \<longrightarrow> get_mappings_for_trait resp = Inl KeyError
          \<and> get_ontology_mappings e (t_name trait) fs zooma_host = Inl KeyError
          \<and> process_trait e trait fs zooma_host oxo_target_list oxo_distance
              = ([], Inl KeyError))"
proof -
  let ?url = "build_zooma_query (t_name trait) fs zooma_host"
  have a: "get_ontology_mappings e (t_name trait) fs zooma_host = Inr None"
    if "requests_get_json e ?url = Inl JSONDecodeError"
  proof -
    from that have "zooma_query_helper e ?url = Inr None"
      by (simp add: zooma_query_helper_def)
    then show ?thesis
      by (simp add: get_ontology_mappings_def request_retry_helper_4_None)
  qed
  have b: "get_mappings_for_trait resp = Inl KeyError
          \<and> get_ontology_mappings e (t_name trait) fs zooma_host = Inl KeyError
          \<and> process_trait e trait fs zooma_host oxo_target_list oxo_distance
              = ([], Inl KeyError)"
    if "requests_get_json e ?url = Inr resp" and "r \<in> set resp" and "lacks_field r"
  proof -
    from that have g: "get_mappings_for_trait resp = Inl KeyError"
      by (simp add: get_mappings_for_trait_lacks_field)
    from that have "zooma_query_helper e ?url = Inr (Some resp)"
      by (simp add: zooma_query_helper_def)
    then have m: "get_ontology_mappings e (t_name trait) fs zooma_host = Inl KeyError"
      by (simp add: get_ontology_mappings_def request_retry_helper_4_Some g)
    then show ?thesis using g
      by (simp add: process_trait_def)
  qed
  from a b show ?thesis by blast
qed

theorem malformed_response_not_recovered_witness:
  "requests_get_json (ex_env (Inl JSONDecodeError) never_current (Inr None))
     (build_zooma_query (t_name (Trait ''intellectual disability'' 5)) ex_filters
        ''https://www.ebi.ac.uk'')
     = Inl JSONDecodeError
   \<and> get_ontology_mappings (ex_env (Inl JSONDecodeError) never_current (Inr None))
       (t_name (Trait ''intellectual disability'' 5)) ex_filters ''https://www.ebi.ac.uk''
     = Inr None
   \<and> requests_get_json
       (ex_env (Inr [ex_result ''http://www.ebi.ac.uk/efo/EFO_0003847'' ''HIGH'',
                     ex_result_no_confidence]) never_current (Inr None))
       (build_zooma_query (t_name (Trait ''intellectual disability'' 5)) ex_filters
          ''https://www.ebi.ac.uk'')
     = Inr [ex_result ''http://www.ebi.ac.uk/efo/EFO_0003847'' ''HIGH'', ex_result_no_confidence]
   \<and> lacks_field ex_result_no_confidence
   \<and> get_mappings_for_trait
       [ex_result ''http://www.ebi.ac.uk/efo/EFO_0003847'' ''HIGH'', ex_result_no_confidence]
     = Inl KeyError
   \<and> process_trait
       (ex_env (Inr [ex_result ''http://www.ebi.ac.uk/efo/EFO_0003847'' ''HIGH'',
                     ex_result_no_confidence]) never_current (Inr None))
       (Trait ''intellectual disability'' 5) ex_filters ''https://www.ebi.ac.uk''
       [''Orphanet'', ''efo'', ''hp''] 3
     = ([], Inl KeyError)"
proof -
  let ?resp = "[ex_result ''http://www.ebi.ac.uk/efo/EFO_0003847'' ''HIGH'',
                ex_result_no_confidence]"
  have h1: "requests_get_json (ex_env (Inl JSONDecodeError) never_current (Inr None))
     (build_zooma_query (t_name (Trait ''intellectual disability'' 5)) ex_filters
        ''https://www.ebi.ac.uk'')
     = Inl JSONDecodeError"
    by (simp add: ex_env_def)
  have h2: "requests_get_json (ex_env (Inr ?resp) never_current (Inr None))
       (build_zooma_query (t_name (Trait ''intellectual disability'' 5)) ex_filters
          ''https://www.ebi.ac.uk'')
     = Inr ?resp"
    by (simp add: ex_env_def)
  have h3: "ex_result_no_confidence \<in> set ?resp" by simp
  have h4: "lacks_field ex_result_no_confidence"
    by (simp add: lacks_field_def ex_result_no_confidence_def)
  from malformed_response_not_recovered
         [of "ex_env (Inl JSONDecodeError) never_current (Inr None)"
             "Trait ''intellectual disability'' 5" ex_filters "''https://www.ebi.ac.uk''"]
       malformed_response_not_recovered
         [of "ex_env (Inr ?resp) never_current (Inr None)"
             "Trait ''intellectual disability'' 5" ex_filters "''https://www.ebi.ac.uk''"
             ?resp ex_result_no_confidence "[''Orphanet'', ''efo'', ''hp'']" 3]
       h1 h2 h3 h4
  show ?thesis by blast
qed

section \<open>When the cross-reference service is queried\<close>

lemma set_set_update: "set (set_update xs s) = set xs \<union> set s"
  unfolding set_update_def by (induction xs arbitrary: s) (auto simp: set_set_add)

lemma set_get_uris_for_oxo_acc:
  "set (get_uris_for_oxo_acc ms acc) =
     set acc \<union> {ze_uri en | m en. m \<in> set ms \<and> lower (zm_confidence m) = ''high''
                   \<and> en \<in> set (zooma_entry_list m)}"
proof (induction ms arbitrary: acc)
  case Nil
  then show ?case by simp
next
  case (Cons m ms)
  show ?case
    unfolding get_uris_for_oxo_acc.simps Cons.IH
    by (auto simp: set_set_update)
qed

lemma set_get_uris_for_oxo:
  "set (get_uris_for_oxo ms) =
     {ze_uri en | m en. m \<in> set ms \<and> lower (zm_confidence m) = ''high''
        \<and> en \<in> set (zooma_entry_list m)}"
  by (simp add: get_uris_for_oxo_def set_get_uris_for_oxo_acc)

lemma process_trait_log_cases:
  assumes "get_ontology_mappings e (t_name trait) fs zooma_host = Inr (Some ms)"
  shows "fst (process_trait e trait fs zooma_host oxo_target_list oxo_distance) =
     (if is_finished (trait\<lparr>zooma_mapping_list := Some ms,
                           finished_mapping_set :=
                             zooma_mappings_finished ms (finished_mapping_set trait)\<rparr>)
         \<or> ms = []
         \<or> (\<exists>m\<in>set ms. \<exists>en\<in>set (zooma_entry_list m). ze_is_current en)
         \<or> get_uris_for_oxo ms = []
      then []
      else (case uris_to_oxo_format (get_uris_for_oxo ms) of
              Inl err \<Rightarrow> []
            | Inr ids \<Rightarrow> [(ids, oxo_target_list, oxo_distance)]))"
  using assms
  by (simp add: process_trait_def process_zooma_mappings_def Let_def list_ex_iff
      split: sum.splits)

lemma process_trait_log_no_mappings:
  assumes "\<nexists>ms. get_ontology_mappings e (t_name trait) fs zooma_host = Inr (Some ms)"
  shows "fst (process_trait e trait fs zooma_host oxo_target_list oxo_distance) = []"
proof (cases "get_ontology_mappings e (t_name trait) fs zooma_host")
  case (Inl err)
  then show ?thesis by (simp add: process_trait_def)
next
  case (Inr r)
  with assms have "r = None" by (cases r) auto
  with Inr show ?thesis by (simp add: process_trait_def process_zooma_mappings_def)
qed

text \<open>
  Claim C3. \<open>process_trait\<close> sends at most one query to the cross-reference service, and
  only when the primary source answered with a list of mapping groups that is not empty,
  the trait is not finished after \<open>process_zooma_mappings\<close>, no entry of any group (of any
  confidence) is current, and the set of URIs of the groups of confidence "high" is not
  empty; the query carries the converted identifiers of those URIs. In particular, when
  some entry of the primary result is current, no query is sent.
\<close>

theorem oxo_query_only_when_eligible:
  "(fst (process_trait e trait fs zooma_host oxo_target_list oxo_distance) \<noteq> [] \<longrightarrow>
      (\<exists>ms t1 ids.
          get_ontology_mappings e (t_name trait) fs zooma_host = Inr (Some ms)
        \<and> process_zooma_mappings (trait\<lparr>zooma_mapping_list := Some ms\<rparr>) = Inr t1
        \<and> \<not> is_finished t1
        \<and> ms \<noteq> []
        \<and> (\<forall>m\<in>set ms. \<forall>en\<in>set (zooma_entry_list m). \<not> ze_is_current en)
        \<and> {ze_uri en | m en. m \<in> set ms \<and> lower (zm_confidence m) = ''high''
              \<and> en \<in> set (zooma_entry_list m)} \<noteq> {}
        \<and> uris_to_oxo_format (get_uris_for_oxo ms) = Inr ids
        \<and> fst (process_trait e trait fs zooma_host oxo_target_list oxo_distance)
            = [(ids, oxo_target_list, oxo_distance)]))
   \<and> (get_ontology_mappings e (t_name trait) fs zooma_host = Inr (Some ms')
        \<and> m' \<in> set ms' \<and> en' \<in> set (zooma_entry_list m') \<and> ze_is_current en'
      \<longrightarrow> fst (process_trait e trait fs zooma_host oxo_target_list oxo_distance) = [])"
proof -
  let ?log = "fst (process_trait e trait fs zooma_host oxo_target_list oxo_distance)"
  have a: "\<exists>ms t1 ids.
          get_ontology_mappings e (t_name trait) fs zooma_host = Inr (Some ms)
        \<and> process_zooma_mappings (trait\<lparr>zooma_mapping_list := Some ms\<rparr>) = Inr t1
        \<and> \<not> is_finished t1
        \<and> ms \<noteq> []
        \<and> (\<forall>m\<in>set ms. \<forall>en\<in>set (zooma_entry_list m). \<not> ze_is_current en)
        \<and> {ze_uri en | m en. m \<in> set ms \<and> lower (zm_confidence m) = ''high''
              \<and> en \<in> set (zooma_entry_list m)} \<noteq> {}
        \<and> uris_to_oxo_format (get_uris_for_oxo ms) = Inr ids
        \<and> ?log = [(ids, oxo_target_list, oxo_distance)]"
    if sent: "?log \<noteq> []"
  proof -
    from sent obtain ms where
      ms: "get_ontology_mappings e (t_name trait) fs zooma_host = Inr (Some ms)"
      using process_trait_log_no_mappings [of e trait fs zooma_host oxo_target_list oxo_distance]
      by blast
    let ?t1 = "trait\<lparr>zooma_mapping_list := Some ms,
                      finished_mapping_set :=
                        zooma_mappings_finished ms (finished_mapping_set trait)\<rparr>"
    note log = process_trait_log_cases [OF ms, of oxo_target_list oxo_distance]
    have run: "process_zooma_mappings (trait\<lparr>zooma_mapping_list := Some ms\<rparr>) = Inr ?t1"
      by (simp add: process_zooma_mappings_def)
    from sent log have nf: "\<not> is_finished ?t1" and ne: "ms \<noteq> []"
      and nc: "\<forall>m\<in>set ms. \<forall>en\<in>set (zooma_entry_list m). \<not> ze_is_current en"
      and nu: "get_uris_for_oxo ms \<noteq> []"
      by (auto split: if_splits)
    from nu have "set (get_uris_for_oxo ms) \<noteq> {}" by simp
    then have us: "{ze_uri en | m en. m \<in> set ms \<and> lower (zm_confidence m) = ''high''
              \<and> en \<in> set (zooma_entry_list m)} \<noteq> {}"
      unfolding set_get_uris_for_oxo .
    from sent log nf ne nc nu obtain ids where
      ids: "uris_to_oxo_format (get_uris_for_oxo ms) = Inr ids"
      and one: "?log = [(ids, oxo_target_list, oxo_distance)]"
      by (auto split: if_splits sum.splits)
    from ms run nf ne nc us ids one show ?thesis by blast
  qed
  have b: "?log = []"
    if "get_ontology_mappings e (t_name trait) fs zooma_host = Inr (Some ms')"
      and "m' \<in> set ms'" and "en' \<in> set (zooma_entry_list m')" and "ze_is_current en'"
    using process_trait_log_cases [OF that(1), of oxo_target_list oxo_distance] that(2-4)
    by auto
  from a b show ?thesis by blast
qed

lemmas ex_eval =
  ex_env_bridge_def ex_env_current_def ex_env_def ex_result_def ex_filters_def
  never_current_def always_current_def Trait_def
  get_ontology_mappings_def zooma_query_helper_def numeral_eq_Suc
  result_mapping_def result_source_name_def subscript_def
  ZoomaMapping_def ZoomaEntry_def ZoomaConfidence_getitem_def upper_def upper_char_def
  enrich_mapping_def enrich_entry_def

theorem oxo_query_only_when_eligible_witness:
  "fst (process_trait ex_env_bridge (Trait ''15q13.3 microdeletion syndrome'' 2) ex_filters
          ''https://www.ebi.ac.uk'' [''Orphanet'', ''efo'', ''hp''] 3)
     = [([''Orphanet:199318''], [''Orphanet'', ''efo'', ''hp''], 3)]
   \<and> (\<exists>ms. get_ontology_mappings ex_env_bridge
               (t_name (Trait ''15q13.3 microdeletion syndrome'' 2)) ex_filters
               ''https://www.ebi.ac.uk'' = Inr (Some ms)
          \<and> ms \<noteq> []
          \<and> uris_to_oxo_format (get_uris_for_oxo ms) = Inr [''Orphanet:199318''])
   \<and> get_ontology_mappings ex_env_current (t_name (Trait ''intellectual disability'' 5))
        ex_filters ''https://www.ebi.ac.uk''
      = Inr (Some [\<lparr>zooma_label = ''intellectual disability'', zm_confidence = ''LOW'',
                     zm_source = ''eva-clinvar'',
                     zooma_entry_list = [ex_entry_efo\<lparr>ze_confidence := LOW,
                                                       ze_ontology_label := []\<rparr>]\<rparr>])
   \<and> ze_is_current (ex_entry_efo\<lparr>ze_confidence := LOW, ze_ontology_label := []\<rparr>)
   \<and> fst (process_trait ex_env_current (Trait ''intellectual disability'' 5) ex_filters
          ''https://www.ebi.ac.uk'' [''Orphanet'', ''efo'', ''hp''] 3) = []"
proof -
  let ?log = "fst (process_trait ex_env_bridge (Trait ''15q13.3 microdeletion syndrome'' 2)
          ex_filters ''https://www.ebi.ac.uk'' [''Orphanet'', ''efo'', ''hp''] 3)"
  let ?m = "\<lparr>zooma_label = ''intellectual disability'', zm_confidence = ''LOW'',
                     zm_source = ''eva-clinvar'',
                     zooma_entry_list = [ex_entry_efo\<lparr>ze_confidence := LOW,
                                                       ze_ontology_label := []\<rparr>]\<rparr>"
  let ?en = "ex_entry_efo\<lparr>ze_confidence := LOW, ze_ontology_label := []\<rparr>"
  have g: "get_ontology_mappings ex_env_bridge
             (t_name (Trait ''15q13.3 microdeletion syndrome'' 2)) ex_filters
             ''https://www.ebi.ac.uk''
           = Inr (Some [\<lparr>zooma_label = ''intellectual disability'', zm_confidence = ''HIGH'',
                     zm_source = ''eva-clinvar'',
                     zooma_entry_list =
                       [\<lparr>ze_uri = ''http://www.orpha.net/ORDO/Orphanet_199318'',
                         ze_confidence = HIGH, ze_source = ''eva-clinvar'',
                         ze_ontology_label = [], ze_in_efo = False,
                         ze_is_current = False\<rparr>]\<rparr>])"
    by (simp add: ex_eval)
  have sent: "?log \<noteq> []"
    unfolding process_trait_log_cases [OF g]
    by (simp add: is_finished_def lower_def lower_char_def get_uris_for_oxo_def
        set_update_def set_add_def uri_to_oxo_format_def URI_DB_TO_DB_DICT_def split_str_def
        rstrip_str_def py_getitem_def NON_NUMERIC_RE_sub_def Trait_def)
  have c: "get_ontology_mappings ex_env_current (t_name (Trait ''intellectual disability'' 5))
        ex_filters ''https://www.ebi.ac.uk'' = Inr (Some [?m])"
    by (simp add: ex_eval ex_entry_efo_def)
  have cur: "ze_is_current ?en" by (simp add: ex_entry_efo_def)
  from oxo_query_only_when_eligible
         [of ex_env_bridge "Trait ''15q13.3 microdeletion syndrome'' 2" ex_filters
             "''https://www.ebi.ac.uk''" "[''Orphanet'', ''efo'', ''hp'']" 3]
       sent
  obtain ms ids where
    ms: "get_ontology_mappings ex_env_bridge
               (t_name (Trait ''15q13.3 microdeletion syndrome'' 2)) ex_filters
               ''https://www.ebi.ac.uk'' = Inr (Some ms)"
    and ne: "ms \<noteq> []"
    and ids: "uris_to_oxo_format (get_uris_for_oxo ms) = Inr ids"
    and one: "?log = [(ids, [''Orphanet'', ''efo'', ''hp''], 3)]"
    by blast
  from ms g ids have "ids = [''Orphanet:199318'']"
    by (auto simp: lower_def lower_char_def get_uris_for_oxo_def
        set_update_def set_add_def uri_to_oxo_format_def URI_DB_TO_DB_DICT_def split_str_def
        rstrip_str_def py_getitem_def NON_NUMERIC_RE_sub_def)
  with ms ne ids one have first:
    "?log = [([''Orphanet:199318''], [''Orphanet'', ''efo'', ''hp''], 3)]
     \<and> (\<exists>ms. get_ontology_mappings ex_env_bridge
               (t_name (Trait ''15q13.3 microdeletion syndrome'' 2)) ex_filters
               ''https://www.ebi.ac.uk'' = Inr (Some ms)
          \<and> ms \<noteq> []
          \<and> uris_to_oxo_format (get_uris_for_oxo ms) = Inr [''Orphanet:199318''])"
    by blast
  from oxo_query_only_when_eligible
         [of ex_env_current "Trait ''intellectual disability'' 5" ex_filters
             "''https://www.ebi.ac.uk''" "[''Orphanet'', ''efo'', ''hp'']" 3 "[?m]" ?m ?en]
       c cur
  have second: "fst (process_trait ex_env_current (Trait ''intellectual disability'' 5)
          ex_filters ''https://www.ebi.ac.uk'' [''Orphanet'', ''efo'', ''hp''] 3) = []"
    by simp
  from first c cur second show ?thesis by blast
qed

section \<open>The output of a processed trait\<close>

lemma distinct_oxo_mappings_finished:
  "distinct fs \<Longrightarrow> distinct (oxo_mappings_finished ms fs)"
  by (induction ms arbitrary: fs) (simp_all add: distinct_set_add)

lemma distinct_oxo_results_finished:
  "distinct fs \<Longrightarrow> distinct (oxo_results_finished rs fs)"
  by (induction rs arbitrary: fs) (simp_all add: distinct_oxo_mappings_finished)

lemma process_zooma_mappings_fields:
  assumes "process_zooma_mappings t = Inr t'"
  shows "t_name t' = t_name t" and "frequency t' = frequency t"
    and "zooma_mapping_list t' = zooma_mapping_list t"
    and "\<exists>ms. zooma_mapping_list t' = Some ms"
    and "oxo_xref_list t' = oxo_xref_list t"
    and "distinct (finished_mapping_set t) \<Longrightarrow> distinct (finished_mapping_set t')"
  using assms
  by (auto simp: process_zooma_mappings_def distinct_zooma_mappings_finished
      split: option.splits)

lemma process_oxo_mappings_fields:
  assumes "process_oxo_mappings t = Inr t'"
  shows "t_name t' = t_name t" and "frequency t' = frequency t"
    and "zooma_mapping_list t' = zooma_mapping_list t"
    and "\<exists>rs. oxo_xref_list t' = Some rs"
    and "distinct (finished_mapping_set t) \<Longrightarrow> distinct (finished_mapping_set t')"
  using assms
  by (auto simp: process_oxo_mappings_def distinct_oxo_results_finished
      split: option.splits)

lemma process_trait_fields:
  assumes "snd (process_trait e trait fs zooma_host oxo_target_list oxo_distance) = Inr t"
  shows "t_name t = t_name trait" and "frequency t = frequency trait"
    and "\<exists>ms. zooma_mapping_list t = Some ms"
    and "oxo_xref_list trait \<noteq> None \<Longrightarrow> \<exists>rs. oxo_xref_list t = Some rs"
    and "distinct (finished_mapping_set trait) \<Longrightarrow> distinct (finished_mapping_set t)"
proof -
  from assms obtain zm where
    zm: "get_ontology_mappings e (t_name trait) fs zooma_host = Inr zm"
    by (cases "get_ontology_mappings e (t_name trait) fs zooma_host")
      (simp_all add: process_trait_def)
  let ?t0 = "trait\<lparr>zooma_mapping_list := zm\<rparr>"
  from assms zm obtain t1 where t1: "process_zooma_mappings ?t0 = Inr t1"
    by (cases "process_zooma_mappings ?t0") (simp_all add: process_trait_def)
  note f1 = process_zooma_mappings_fields [OF t1]
  from f1(4) obtain ms where ms: "zooma_mapping_list t1 = Some ms" by blast
  from assms zm t1 ms have "t = t1 \<or> (\<exists>rs. process_oxo_mappings (t1\<lparr>oxo_xref_list := rs\<rparr>) = Inr t)"
    by (auto simp: process_trait_def Let_def split: if_splits sum.splits)
  then have all: "t_name t = t_name trait \<and> frequency t = frequency trait
       \<and> (\<exists>ms. zooma_mapping_list t = Some ms)
       \<and> (oxo_xref_list trait \<noteq> None \<longrightarrow> (\<exists>rs. oxo_xref_list t = Some rs))
       \<and> (distinct (finished_mapping_set trait) \<longrightarrow> distinct (finished_mapping_set t))"
  proof
    assume "t = t1"
    with f1 ms show ?thesis by simp
  next
    assume "\<exists>rs. process_oxo_mappings (t1\<lparr>oxo_xref_list := rs\<rparr>) = Inr t"
    then obtain rs where o: "process_oxo_mappings (t1\<lparr>oxo_xref_list := rs\<rparr>) = Inr t"
      by blast
    note f2 = process_oxo_mappings_fields [OF o]
    have "t_name t = t_name trait" using f1(1) f2(1) by simp
    moreover have "frequency t = frequency trait" using f1(2) f2(2) by simp
    moreover have "\<exists>ms. zooma_mapping_list t = Some ms" using ms f2(3) by simp
    moreover note f2(4)
    moreover have "distinct (finished_mapping_set trait) \<longrightarrow> distinct (finished_mapping_set t)"
      using f1(6) f2(5) by simp
    ultimately show ?thesis by blast
  qed
  from all show "t_name t = t_name trait" and "frequency t = frequency trait"
    and "\<exists>ms. zooma_mapping_list t = Some ms"
    and "oxo_xref_list trait \<noteq> None \<Longrightarrow> \<exists>rs. oxo_xref_list t = Some rs"
    and "distinct (finished_mapping_set trait) \<Longrightarrow> distinct (finished_mapping_set t)"
    by blast+
qed

text \<open>
  Claim C5. For a trait that \<open>process_trait\<close> returns (from the fresh trait that \<^verbatim>\<open>main\<close>
  builds), \<open>output_trait\<close> does not raise and writes rows of exactly one kind. If the
  finished-mapping set is not empty it appends one row (name, URI, label) for each of its
  pairs to the mapping writer, at least one, and leaves the curation writer as it was. If
  the set is empty it appends exactly one row to the curation writer, the name and the
  frequency followed by the cells of the sorted candidates (none when there is no
  candidate), and leaves the mapping writer as it was.
\<close>

theorem output_trait_one_kind:
  assumes "snd (process_trait e (Trait n freq) fs zooma_host oxo_target_list oxo_distance)
           = Inr t"
  shows "(is_finished t \<longrightarrow>
            output_trait t (mapping_writer, curation_writer)
              = Inr (mapping_writer @
                       map (\<lambda>oe. [Str n, Str (oe_uri oe), Str (oe_label oe)])
                         (finished_mapping_set t),
                     curation_writer)
          \<and> length (finished_mapping_set t) = card (set (finished_mapping_set t))
          \<and> 0 < length (finished_mapping_set t))
     \<and> (\<not> is_finished t \<longrightarrow>
          (\<exists>zs os. get_zooma_mappings_for_curation t = Inr zs
             \<and> get_oxo_mappings_for_curation t = Inr os
             \<and> output_trait t (mapping_writer, curation_writer)
                 = Inr (mapping_writer,
                        curation_writer @
                          [[Str n, Num freq] @ map zooma_cell zs @ map oxo_cell os])))"
proof -
  note f = process_trait_fields [OF assms]
  from f(1) have nm: "t_name t = n" by (simp add: Trait_def)
  from f(2) have fr: "frequency t = freq" by (simp add: Trait_def)
  from f(3) obtain ms where z: "zooma_mapping_list t = Some ms" by blast
  from f(4) obtain rs where x: "oxo_xref_list t = Some rs" by (auto simp: Trait_def)
  from f(5) have d: "distinct (finished_mapping_set t)" by (simp add: Trait_def)
  have fin: "output_trait t (mapping_writer, curation_writer)
              = Inr (mapping_writer @
                       map (\<lambda>oe. [Str n, Str (oe_uri oe), Str (oe_label oe)])
                         (finished_mapping_set t),
                     curation_writer)
          \<and> length (finished_mapping_set t) = card (set (finished_mapping_set t))
          \<and> 0 < length (finished_mapping_set t)"
    if "is_finished t"
    using that d nm
    by (simp add: output_trait_def output_trait_mapping_def is_finished_def distinct_card)
  have cur: "\<exists>zs os. get_zooma_mappings_for_curation t = Inr zs
             \<and> get_oxo_mappings_for_curation t = Inr os
             \<and> output_trait t (mapping_writer, curation_writer)
                 = Inr (mapping_writer,
                        curation_writer @
                          [[Str n, Num freq] @ map zooma_cell zs @ map oxo_cell os])"
    if "\<not> is_finished t"
    using that z x nm fr
    by (auto simp: output_trait_def output_for_curation_def
        get_zooma_mappings_for_curation_def get_oxo_mappings_for_curation_def)
  from fin cur show ?thesis by blast
qed

lemmas process_eval =
  process_trait_def process_zooma_mappings_def process_oxo_mappings_def is_finished_def
  lower_def lower_char_def get_uris_for_oxo_def set_update_def set_add_def
  uri_to_oxo_format_def URI_DB_TO_DB_DICT_def split_str_def rstrip_str_def py_getitem_def
  NON_NUMERIC_RE_sub_def ex_oxo_result_def ex_oxo_far_def ex_oxo_near_def ex_uri_efo_def
  ex_uri_hp_def ex_uri_orphanet_def OntologyUri_str_def OntologyEntry_def ex_env_nothing_def

theorem output_trait_one_kind_witness:
  "(\<exists>t. snd (process_trait ex_env_bridge (Trait ''15q13.3 microdeletion syndrome'' 2)
              ex_filters ''https://www.ebi.ac.uk'' [''Orphanet'', ''efo'', ''hp''] 3) = Inr t
        \<and> is_finished t
        \<and> output_trait t ([], [])
            = Inr ([[Str ''15q13.3 microdeletion syndrome'',
                     Str ''http://www.ebi.ac.uk/efo/EFO_0003847'',
                     Str ''intellectual disability'']],
                   []))
   \<and> (\<exists>t. snd (process_trait ex_env_current (Trait ''intellectual disability'' 5)
              ex_filters ''https://www.ebi.ac.uk'' [''Orphanet'', ''efo'', ''hp''] 3) = Inr t
        \<and> \<not> is_finished t
        \<and> output_trait t ([], [])
            = Inr ([],
                   [[Str ''intellectual disability'', Num 5,
                     Str ''http://www.ebi.ac.uk/efo/EFO_0003847||LOW|eva-clinvar'']]))
   \<and> (\<exists>t. snd (process_trait ex_env_nothing (Trait ''vague syndrome'' 2)
              ex_filters ''https://www.ebi.ac.uk'' [''Orphanet'', ''efo'', ''hp''] 3) = Inr t
        \<and> \<not> is_finished t
        \<and> output_trait t ([], []) = Inr ([], [[Str ''vague syndrome'', Num 2]]))"
proof -
  have a: "\<exists>t. snd (process_trait ex_env_bridge (Trait ''15q13.3 microdeletion syndrome'' 2)
              ex_filters ''https://www.ebi.ac.uk'' [''Orphanet'', ''efo'', ''hp''] 3) = Inr t
        \<and> is_finished t
        \<and> output_trait t ([], [])
            = Inr ([[Str ''15q13.3 microdeletion syndrome'',
                     Str ''http://www.ebi.ac.uk/efo/EFO_0003847'',
                     Str ''intellectual disability'']],
                   [])"
  proof -
    obtain t where p: "snd (process_trait ex_env_bridge
        (Trait ''15q13.3 microdeletion syndrome'' 2)
        ex_filters ''https://www.ebi.ac.uk'' [''Orphanet'', ''efo'', ''hp''] 3) = Inr t"
      by (simp add: process_eval ex_eval)
    then have fs: "finished_mapping_set t =
        [\<lparr>oe_uri = ''http://www.ebi.ac.uk/efo/EFO_0003847'',
          oe_label = ''intellectual disability''\<rparr>]"
      by (auto simp: process_eval ex_eval)
    then have fin: "is_finished t" by (simp add: is_finished_def)
    from output_trait_one_kind [OF p, of "[]" "[]"] fin fs p show ?thesis by auto
  qed
  have b: "\<exists>t. snd (process_trait ex_env_current (Trait ''intellectual disability'' 5)
              ex_filters ''https://www.ebi.ac.uk'' [''Orphanet'', ''efo'', ''hp''] 3) = Inr t
        \<and> \<not> is_finished t
        \<and> output_trait t ([], [])
            = Inr ([],
                   [[Str ''intellectual disability'', Num 5,
                     Str ''http://www.ebi.ac.uk/efo/EFO_0003847||LOW|eva-clinvar'']])"
  proof -
    obtain t where p: "snd (process_trait ex_env_current (Trait ''intellectual disability'' 5)
        ex_filters ''https://www.ebi.ac.uk'' [''Orphanet'', ''efo'', ''hp''] 3) = Inr t"
      by (simp add: process_eval ex_eval)
    then have fs: "finished_mapping_set t = []"
      and z: "get_zooma_mappings_for_curation t =
          Inr [ex_entry_efo\<lparr>ze_confidence := LOW, ze_ontology_label := []\<rparr>]"
      and x: "get_oxo_mappings_for_curation t = Inr []"
      by (auto simp: process_eval ex_eval get_zooma_mappings_for_curation_def
          get_oxo_mappings_for_curation_def zooma_candidates_def oxo_candidates_def
          py_sort_reverse_def py_sort_def ex_entry_efo_def)
    from fs have fin: "\<not> is_finished t" by (simp add: is_finished_def)
    from output_trait_one_kind [OF p, of "[]" "[]"] fin z x p show ?thesis
      by (auto simp: zooma_cell_def ex_entry_efo_def)
  qed
  have c: "\<exists>t. snd (process_trait ex_env_nothing (Trait ''vague syndrome'' 2)
              ex_filters ''https://www.ebi.ac.uk'' [''Orphanet'', ''efo'', ''hp''] 3) = Inr t
        \<and> \<not> is_finished t
        \<and> output_trait t ([], []) = Inr ([], [[Str ''vague syndrome'', Num 2]])"
  proof -
    obtain t where p: "snd (process_trait ex_env_nothing (Trait ''vague syndrome'' 2)
        ex_filters ''https://www.ebi.ac.uk'' [''Orphanet'', ''efo'', ''hp''] 3) = Inr t"
      by (simp add: process_eval ex_eval)
    then have fs: "finished_mapping_set t = []"
      and z: "get_zooma_mappings_for_curation t = Inr []"
      and x: "get_oxo_mappings_for_curation t = Inr []"
      by (auto simp: process_eval ex_eval get_zooma_mappings_for_curation_def
          get_oxo_mappings_for_curation_def zooma_candidates_def oxo_candidates_def
          py_sort_reverse_def py_sort_def)
    from fs have fin: "\<not> is_finished t" by (simp add: is_finished_def)
    from output_trait_one_kind [OF p, of "[]" "[]"] fin z x p show ?thesis by auto
  qed
  from a b c show ?thesis by blast
qed

section \<open>The order of the curation candidates\<close>

lemma py_insort_insort_key:
  fixes f :: "'a \<Rightarrow> nat"
  assumes "\<And>y. y \<in> set ys \<Longrightarrow> lt y x \<longleftrightarrow> f y < f x"
  shows "py_insort lt x ys = insort_key f x ys"
  using assms by (induction ys) (auto simp: not_less)

lemma py_sort_sort_key:
  fixes f :: "'a \<Rightarrow> nat"
  assumes "\<And>x y. x \<in> set xs \<Longrightarrow> y \<in> set xs \<Longrightarrow> lt x y \<longleftrightarrow> f x < f y"
  shows "py_sort lt xs = sort_key f xs"
  using assms
proof (induction xs)
  case Nil
  then show ?case by (simp add: py_sort_def)
next
  case (Cons x xs)
  then have "py_sort lt xs = sort_key f xs" by simp
  moreover have "py_insort lt x (sort_key f xs) = insort_key f x (sort_key f xs)"
    by (rule py_insort_insort_key) (simp add: Cons.prems)
  ultimately show ?case by (simp add: py_sort_def sort_key_def)
qed

lemma zooma_candidates_flags:
  "en \<in> set (zooma_candidates ms) \<Longrightarrow> ze_in_efo en \<and> ze_is_current en"
  by (auto simp: zooma_candidates_def)

lemma ZoomaEntry_lt_candidates:
  assumes "ze_in_efo a \<and> ze_is_current a" and "ze_in_efo b \<and> ze_is_current b"
  shows "ZoomaEntry_lt a b \<longleftrightarrow>
     confidence_value (ze_confidence a) < confidence_value (ze_confidence b)"
  using assms by (auto simp: ZoomaEntry_lt_def ZoomaConfidence_eq_def ZoomaConfidence_lt_def)

lemma curation_sort_key:
  "py_sort_reverse ZoomaEntry_lt (zooma_candidates ms) =
     rev (sort_key (\<lambda>en. confidence_value (ze_confidence en)) (rev (zooma_candidates ms)))"
  unfolding py_sort_reverse_def
  by (rule arg_cong [where f = rev], rule py_sort_sort_key)
    (simp add: ZoomaEntry_lt_candidates zooma_candidates_flags)

lemma confidence_value_inj:
  "confidence_value c = confidence_value c' \<longleftrightarrow> c = c'"
  by (cases c; cases c') simp_all

text \<open>
  Two candidates of the same confidence class, in the two orders in which the primary
  source can return them: the same multiset of entries, two different sorted lists.
\<close>

theorem curation_order_counterexample:
  "mset (zooma_candidates [ex_mapping_good [ex_entry_good_a, ex_entry_good_b]])
     = mset (zooma_candidates [ex_mapping_good [ex_entry_good_b, ex_entry_good_a]])
   \<and> get_zooma_mappings_for_curation (ex_trait_good [ex_entry_good_a, ex_entry_good_b])
       = Inr [ex_entry_good_a, ex_entry_good_b]
   \<and> get_zooma_mappings_for_curation (ex_trait_good [ex_entry_good_b, ex_entry_good_a])
       = Inr [ex_entry_good_b, ex_entry_good_a]
   \<and> [ex_entry_good_a, ex_entry_good_b] \<noteq> [ex_entry_good_b, ex_entry_good_a]"
  by (simp add: get_zooma_mappings_for_curation_def ex_trait_good_def ex_mapping_good_def
      zooma_candidates_def ex_entry_good_a_def ex_entry_good_b_def py_sort_reverse_def
      py_sort_def ZoomaEntry_lt_def ZoomaConfidence_eq_def ZoomaConfidence_lt_def)

text \<open>
  Claim C8, amended. The sorted curation list of a trait is a rearrangement of its
  candidates (the entries with efo-membership and currency true) in which an entry of a
  higher confidence class always precedes an entry of a lower one. The sort is stable:
  candidates of the same confidence class keep the order in which the primary source
  returned them, so the list is determined by the sequence of the entries, not by their
  multiset alone.
\<close>

theorem curation_order:
  assumes "zooma_mapping_list t = Some ms"
  shows "\<exists>out. get_zooma_mappings_for_curation t = Inr out
     \<and> mset out = mset (zooma_candidates ms)
     \<and> (\<forall>i j. i < length out \<and> j < length out
            \<and> ZoomaConfidence_lt (ze_confidence (out ! j)) (ze_confidence (out ! i))
          \<longrightarrow> i < j)
     \<and> (\<forall>c. filter (\<lambda>en. ze_confidence en = c) out
             = filter (\<lambda>en. ze_confidence en = c) (zooma_candidates ms))"
proof -
  let ?cv = "\<lambda>en. confidence_value (ze_confidence en)"
  let ?cs = "zooma_candidates ms"
  let ?out = "rev (sort_key ?cv (rev ?cs))"
  have run: "get_zooma_mappings_for_curation t = Inr ?out"
    using assms by (simp add: get_zooma_mappings_for_curation_def curation_sort_key)
  have perm: "mset ?out = mset ?cs" by simp
  have "sorted (map ?cv (sort_key ?cv (rev ?cs)))" by (rule sorted_sort_key)
  then have "sorted (rev (map ?cv ?out))" by (simp add: rev_map)
  then have desc: "?cv (?out ! j) \<le> ?cv (?out ! i)" if "i \<le> j" and "j < length ?out" for i j
    using that sorted_rev_iff_nth_mono [of "map ?cv ?out"] by auto
  have prec: "i < j"
    if "i < length ?out" and "j < length ?out"
      and "ZoomaConfidence_lt (ze_confidence (?out ! j)) (ze_confidence (?out ! i))" for i j
  proof (rule ccontr)
    assume "\<not> i < j"
    then have "j \<le> i" by simp
    from desc [OF this that(1)] that(3) show False
      by (simp add: ZoomaConfidence_lt_def)
  qed
  have stable: "filter (\<lambda>en. ze_confidence en = c) ?out = filter (\<lambda>en. ze_confidence en = c) ?cs"
    for c
  proof -
    have "filter (\<lambda>en. ?cv en = confidence_value c) (sort_key ?cv (rev ?cs))
            = filter (\<lambda>en. ?cv en = confidence_value c) (rev ?cs)"
      by (rule sort_key_stable)
    then have "filter (\<lambda>en. ze_confidence en = c) (sort_key ?cv (rev ?cs))
            = filter (\<lambda>en. ze_confidence en = c) (rev ?cs)"
      by (simp only: confidence_value_inj)
    then have "rev (filter (\<lambda>en. ze_confidence en = c) (sort_key ?cv (rev ?cs)))
            = rev (filter (\<lambda>en. ze_confidence en = c) (rev ?cs))"
      by simp
    then show ?thesis by (simp only: rev_filter rev_rev_ident)
  qed
  from run perm prec stable show ?thesis by blast
qed

theorem curation_order_witness:
  "zooma_mapping_list ex_trait_zooma = Some [ex_mapping_low, ex_mapping_high]
   \<and> zooma_candidates [ex_mapping_low, ex_mapping_high] = [ex_entry_low, ex_entry_efo]
   \<and> (\<exists>out. get_zooma_mappings_for_curation ex_trait_zooma = Inr out
          \<and> mset out = mset [ex_entry_low, ex_entry_efo]
          \<and> out = [ex_entry_efo, ex_entry_low])"
proof -
  have h: "zooma_mapping_list ex_trait_zooma = Some [ex_mapping_low, ex_mapping_high]"
    by (simp add: ex_trait_zooma_def)
  have c: "zooma_candidates [ex_mapping_low, ex_mapping_high] = [ex_entry_low, ex_entry_efo]"
    by (simp add: zooma_candidates_def ex_mapping_low_def ex_mapping_high_def
        ex_entry_low_def ex_entry_efo_def)
  from curation_order [OF h] obtain out where
    run: "get_zooma_mappings_for_curation ex_trait_zooma = Inr out"
    and perm: "mset out = mset (zooma_candidates [ex_mapping_low, ex_mapping_high])"
    by blast
  have "get_zooma_mappings_for_curation ex_trait_zooma = Inr [ex_entry_efo, ex_entry_low]"
    by (simp add: get_zooma_mappings_for_curation_def h c py_sort_reverse_def py_sort_def
        ZoomaEntry_lt_def ZoomaConfidence_eq_def ZoomaConfidence_lt_def
        ex_entry_low_def ex_entry_efo_def)
  with run have "out = [ex_entry_efo, ex_entry_low]" by simp
  with h c run perm show ?thesis by simp
qed

end
